theory Spec2Isabelle
  imports Main "HOL-Library.Sublist"
begin

section \<open>Go values used by every package\<close>

subsection \<open>Errors and formatting\<close>

text \<open>
  A Go error is modelled by the way the code builds it: \<open>errors_New msg\<close> is an error
  whose text is \<open>msg\<close> (also what \<^verbatim>\<open>fmt.Errorf\<close> returns when its format has no
  \<^verbatim>\<open>%w\<close>), and \<open>fmt_Errorf pre err\<close> is \<^verbatim>\<open>fmt.Errorf(pre + "%w", err)\<close>:
  it wraps \<open>err\<close>, and its text is the prefix followed by the text of \<open>err\<close>.
\<close>

datatype error = errors_New string | fmt_Errorf string error

fun Error :: "error \<Rightarrow> string" where
  "Error (errors_New msg) = msg"
| "Error (fmt_Errorf pre err) = pre @ Error err"

text \<open>
  Version numbers are Go \<^verbatim>\<open>int\<close>s.  The program compares them for equality and
  prints them, and computes nothing with them, so they are integers here.  The verb
  \<^verbatim>\<open>%d\<close> of package fmt prints one in decimal, with a minus sign when negative.
\<close>

fun nat_digits :: "nat \<Rightarrow> string" where
  "nat_digits n =
     (if n < 10 then [''0123456789'' ! n]
      else nat_digits (n div 10) @ [''0123456789'' ! (n mod 10)])"

declare nat_digits.simps [simp del]

definition fmt_d :: "int \<Rightarrow> string" where
  "fmt_d i = (if i < 0 then ''-'' @ nat_digits (nat (- i)) else nat_digits (nat i))"

abbreviation nl :: string where
  "nl \<equiv> [CHR 0x0A]"

subsection \<open>Types of the Pulumi SDK that the code reads\<close>

text \<open>
  \<^verbatim>\<open>apitype.UntypedDeployment\<close>: a version number and the raw JSON document.
  \<^verbatim>\<open>auto.UpdateSummary\<close>: the fields the repository reads; \<^verbatim>\<open>EndTime\<close> and
  \<^verbatim>\<open>ResourceChanges\<close> are pointers, \<open>None\<close> is \<^verbatim>\<open>nil\<close>.  Field names carry
  the name of their struct, since a field name is a constant of the whole theory.
\<close>

record UntypedDeployment =
  Untyped_Version :: int
  Untyped_Deployment :: string

record UpdateSummary =
  Summary_Version :: int
  Summary_Kind :: string
  Summary_StartTime :: string
  Summary_Message :: string
  Summary_Result :: string
  Summary_EndTime :: "string option"
  Summary_ResourceChanges :: "(string \<rightharpoonup> int) option"

text \<open>
  \<^verbatim>\<open>auto.PreviewResult\<close>, \<^verbatim>\<open>auto.RefreshResult\<close>, \<^verbatim>\<open>auto.UpResult\<close>.  A Go map
  that may be \<^verbatim>\<open>nil\<close> is an optional map.  \<^verbatim>\<open>apitype.OpType\<close> is a string type.
\<close>

type_synonym OpType = string

record PreviewResult =
  Preview_StdOut :: string
  Preview_StdErr :: string
  Preview_ChangeSummary :: "(OpType \<rightharpoonup> int) option"

record RefreshResult =
  Refresh_StdOut :: string
  Refresh_StdErr :: string
  Refresh_Summary :: UpdateSummary

record UpResult =
  Up_StdOut :: string
  Up_StdErr :: string
  Up_Summary :: UpdateSummary

datatype optpreview_Option = optpreview_Message string
datatype optrefresh_Option = optrefresh_Message string
datatype optup_Option = optup_Message string

subsection \<open>The world the program runs in\<close>

text \<open>
  Every method of a stack handle is a function on the state \<open>'b\<close> of the deployment
  backend: it returns its result (\<open>Inl\<close> the error) and the backend's next state, so a
  test double that counts its calls and the real backend are both instances.

  The world holds the backend, what has been written to each \<^verbatim>\<open>io.Writer\<close>, the unread
  standard input, and a log of the interface calls made so far, each with its arguments
  and its outcome, in the order they were made.  The log is written only by the
  \<open>stack_\<close> and \<open>SelectStack\<close> call functions below; no code of the program reads it.
  The \<^verbatim>\<open>context.Context\<close> every call passes on is left out: the program only
  hands it to the backend.
\<close>

datatype Writer = os_Stdout | bytes_Buffer nat

datatype call =
    Call_SelectStack string string "error option"
  | Call_Export "error + UntypedDeployment"
  | Call_Import UntypedDeployment "error option"
  | Call_History int int "error + UpdateSummary list"
  | Call_Preview "optpreview_Option list" "error + PreviewResult"
  | Call_Refresh "optrefresh_Option list" "error + RefreshResult"
  | Call_Up "optup_Option list" "error + UpResult"

record 'b world =
  backend :: 'b
  calls :: "call list"
  written :: "Writer \<Rightarrow> string"
  stdin :: string

definition Fprintf :: "Writer \<Rightarrow> string \<Rightarrow> 'b world \<Rightarrow> 'b world" where
  "Fprintf wr s w = w\<lparr>written := (written w)(wr := written w wr @ s)\<rparr>"

text \<open>The calls that change the backend's committed state or the live infrastructure.\<close>

fun mutating :: "call \<Rightarrow> bool" where
  "mutating (Call_Import _ _) = True"
| "mutating (Call_Refresh _ _) = True"
| "mutating (Call_Up _ _) = True"
| "mutating _ = False"

fun is_Import :: "call \<Rightarrow> bool" where
  "is_Import (Call_Import _ _) = True"
| "is_Import _ = False"

text \<open>\<^verbatim>\<open>auto.Stack\<close>, the SDK's stack handle, with the six methods the program calls.\<close>

record 'b auto_Stack =
  auto_Export :: "'b \<Rightarrow> (error + UntypedDeployment) \<times> 'b"
  auto_Import :: "UntypedDeployment \<Rightarrow> 'b \<Rightarrow> error option \<times> 'b"
  auto_History :: "int \<Rightarrow> int \<Rightarrow> 'b \<Rightarrow> (error + UpdateSummary list) \<times> 'b"
  auto_Preview :: "optpreview_Option list \<Rightarrow> 'b \<Rightarrow> (error + PreviewResult) \<times> 'b"
  auto_Refresh :: "optrefresh_Option list \<Rightarrow> 'b \<Rightarrow> (error + RefreshResult) \<times> 'b"
  auto_Up :: "optup_Option list \<Rightarrow> 'b \<Rightarrow> (error + UpResult) \<times> 'b"

text \<open>
  What the program takes from outside the repository: the SDK's
  \<^verbatim>\<open>auto.SelectStackLocalSource\<close> and \<^verbatim>\<open>json.Unmarshal\<close> into a
  \<^verbatim>\<open>map[string]interface{}\<close> (\<open>None\<close>: no error).
\<close>

record 'b externals =
  auto_SelectStackLocalSource :: "string \<Rightarrow> string \<Rightarrow> 'b \<Rightarrow> (error + 'b auto_Stack) \<times> 'b"
  json_Unmarshal :: "string \<Rightarrow> error option"

section \<open>Package history\<close>

subsection \<open>interfaces.go\<close>

record 'b Stack =
  Stack_History :: "int \<Rightarrow> int \<Rightarrow> 'b \<Rightarrow> (error + UpdateSummary list) \<times> 'b"

type_synonym 'b StackSelector = "string \<Rightarrow> string \<Rightarrow> 'b \<Rightarrow> (error + 'b Stack) \<times> 'b"

definition RealStack :: "'b auto_Stack \<Rightarrow> 'b Stack" where
  "RealStack stack = \<lparr>Stack_History = (\<lambda>pageSize page. auto_History stack pageSize page)\<rparr>"

definition DefaultStackSelector :: "'b externals \<Rightarrow> 'b StackSelector" where
  "DefaultStackSelector X stackName projectPath b =
     (case auto_SelectStackLocalSource X stackName projectPath b of
        (Inl err, b') \<Rightarrow> (Inl err, b')
      | (Inr stack, b') \<Rightarrow> (Inr (RealStack stack), b'))"

definition DefaultSelector :: "'b externals \<Rightarrow> 'b StackSelector" where
  "DefaultSelector X = DefaultStackSelector X"

text \<open>The two interface calls of this package, with their entry in the log.\<close>

definition selector_SelectStack ::
  "'b StackSelector \<Rightarrow> string \<Rightarrow> string \<Rightarrow> 'b world \<Rightarrow> (error + 'b Stack) \<times> 'b world" where
  "selector_SelectStack selector stackName projectPath w =
     (case selector stackName projectPath (backend w) of
        (Inl err, b) \<Rightarrow>
          (Inl err, w\<lparr>backend := b,
                      calls := calls w @ [Call_SelectStack stackName projectPath (Some err)]\<rparr>)
      | (Inr stack, b) \<Rightarrow>
          (Inr stack, w\<lparr>backend := b,
                        calls := calls w @ [Call_SelectStack stackName projectPath None]\<rparr>))"

definition Stack_call_History ::
  "'b Stack \<Rightarrow> int \<Rightarrow> int \<Rightarrow> 'b world \<Rightarrow> (error + UpdateSummary list) \<times> 'b world" where
  "Stack_call_History stack pageSize page w =
     (case Stack_History stack pageSize page (backend w) of
        (r, b) \<Rightarrow> (r, w\<lparr>backend := b, calls := calls w @ [Call_History pageSize page r]\<rparr>))"

subsection \<open>history.go\<close>

text \<open>
  \<^verbatim>\<open>time.Time\<close> is a type \<open>'t\<close> of package time, which comes with the four operations the
  repository uses: parsing with the layout RFC3339 (\<open>None\<close>: an error), the zero value,
  \<^verbatim>\<open>IsZero\<close> and \<^verbatim>\<open>Format("2006-01-02 15:04")\<close>.
\<close>

record 't time_pkg =
  time_Parse_RFC3339 :: "string \<Rightarrow> 't option"
  time_Zero :: 't
  time_IsZero :: "'t \<Rightarrow> bool"
  time_Format :: "'t \<Rightarrow> string"

record 't UpdateInfo =
  Info_Version :: int
  Info_Kind :: string
  Info_StartTime :: 't
  Info_EndTime :: 't
  Info_Result :: string
  Info_Message :: string
  Info_ResourceChanges :: "string \<rightharpoonup> int"

text \<open>The body of the loop of \<^verbatim>\<open>ConvertUpdates\<close>, for one \<^verbatim>\<open>update\<close>.\<close>

definition ConvertUpdate :: "'t time_pkg \<Rightarrow> UpdateSummary \<Rightarrow> 't UpdateInfo" where
  "ConvertUpdate T update =
     \<lparr>Info_Version = Summary_Version update,
      Info_Kind = Summary_Kind update,
      Info_StartTime =
        (if Summary_StartTime update \<noteq> ''''
         then (case time_Parse_RFC3339 T (Summary_StartTime update) of
                 Some t \<Rightarrow> t | None \<Rightarrow> time_Zero T)
         else time_Zero T),
      Info_EndTime =
        (case Summary_EndTime update of
           None \<Rightarrow> time_Zero T
         | Some s \<Rightarrow>
             (if s \<noteq> ''''
              then (case time_Parse_RFC3339 T s of Some t \<Rightarrow> t | None \<Rightarrow> time_Zero T)
              else time_Zero T)),
      Info_Result = Summary_Result update,
      Info_Message = Summary_Message update,
      Info_ResourceChanges =
        (case Summary_ResourceChanges update of
           None \<Rightarrow> Map.empty
         | Some m \<Rightarrow> Map.empty ++ m)\<rparr>"

fun ConvertUpdates :: "'t time_pkg \<Rightarrow> UpdateSummary list \<Rightarrow> 't UpdateInfo list" where
  "ConvertUpdates T [] = []"
| "ConvertUpdates T (update # history) = ConvertUpdate T update # ConvertUpdates T history"

definition GetStackHistoryWithSelector ::
  "'t time_pkg \<Rightarrow> string \<Rightarrow> string \<Rightarrow> 'b StackSelector \<Rightarrow> 'b world
     \<Rightarrow> (error + 't UpdateInfo list) \<times> 'b world" where
  "GetStackHistoryWithSelector T projectPath stackName selector w =
     (case selector_SelectStack selector stackName projectPath w of
        (Inl err, w1) \<Rightarrow>
          (Inl (fmt_Errorf (''failed to select stack '' @ stackName @ '': '') err), w1)
      | (Inr stack, w1) \<Rightarrow>
          (case Stack_call_History stack 0 0 w1 of
             (Inl err, w2) \<Rightarrow> (Inl (fmt_Errorf ''failed to get stack history: '' err), w2)
           | (Inr history, w2) \<Rightarrow> (Inr (ConvertUpdates T history), w2)))"

definition GetStackHistory ::
  "'b externals \<Rightarrow> 't time_pkg \<Rightarrow> string \<Rightarrow> string \<Rightarrow> 'b world
     \<Rightarrow> (error + 't UpdateInfo list) \<times> 'b world" where
  "GetStackHistory X T projectPath stackName w =
     GetStackHistoryWithSelector T projectPath stackName (DefaultSelector X) w"

text \<open>
  \<^verbatim>\<open>FindUpdateByVersion\<close>: the loop returns (a pointer to a copy of) the first record
  whose version is the one asked for.
\<close>

fun FindUpdateByVersion :: "'t UpdateInfo list \<Rightarrow> int \<Rightarrow> error + 't UpdateInfo" where
  "FindUpdateByVersion [] version =
     Inl (errors_New (''version '' @ fmt_d version @ '' not found in stack history''))"
| "FindUpdateByVersion (update # history) version =
     (if Info_Version update = version then Inr update
      else FindUpdateByVersion history version)"

definition GetUpdateByVersionWithSelector ::
  "'t time_pkg \<Rightarrow> string \<Rightarrow> string \<Rightarrow> int \<Rightarrow> 'b StackSelector \<Rightarrow> 'b world
     \<Rightarrow> (error + 't UpdateInfo) \<times> 'b world" where
  "GetUpdateByVersionWithSelector T projectPath stackName version selector w =
     (case GetStackHistoryWithSelector T projectPath stackName selector w of
        (Inl err, w1) \<Rightarrow> (Inl err, w1)
      | (Inr history, w1) \<Rightarrow> (FindUpdateByVersion history version, w1))"

definition GetUpdateByVersion ::
  "'b externals \<Rightarrow> 't time_pkg \<Rightarrow> string \<Rightarrow> string \<Rightarrow> int \<Rightarrow> 'b world
     \<Rightarrow> (error + 't UpdateInfo) \<times> 'b world" where
  "GetUpdateByVersion X T projectPath stackName version w =
     GetUpdateByVersionWithSelector T projectPath stackName version (DefaultSelector X) w"

definition GetLatestVersionFromHistory :: "'t UpdateInfo list \<Rightarrow> string \<Rightarrow> error + int" where
  "GetLatestVersionFromHistory history stackName =
     (if length history = 0
      then Inl (errors_New (''no deployment history found for stack '' @ stackName))
      else Inr (Info_Version (history ! 0)))"

definition GetLatestVersionWithSelector ::
  "'t time_pkg \<Rightarrow> string \<Rightarrow> string \<Rightarrow> 'b StackSelector \<Rightarrow> 'b world
     \<Rightarrow> (error + int) \<times> 'b world" where
  "GetLatestVersionWithSelector T projectPath stackName selector w =
     (case GetStackHistoryWithSelector T projectPath stackName selector w of
        (Inl err, w1) \<Rightarrow> (Inl err, w1)
      | (Inr history, w1) \<Rightarrow> (GetLatestVersionFromHistory history stackName, w1))"

definition GetLatestVersion ::
  "'b externals \<Rightarrow> 't time_pkg \<Rightarrow> string \<Rightarrow> string \<Rightarrow> 'b world \<Rightarrow> (error + int) \<times> 'b world" where
  "GetLatestVersion X T projectPath stackName w =
     GetLatestVersionWithSelector T projectPath stackName (DefaultSelector X) w"

section \<open>Package rollback\<close>

subsection \<open>The stack interfaces and their default implementation\<close>

record 'b RollbackStack =
  Export :: "'b \<Rightarrow> (error + UntypedDeployment) \<times> 'b"
  Import :: "UntypedDeployment \<Rightarrow> 'b \<Rightarrow> error option \<times> 'b"
  History :: "int \<Rightarrow> int \<Rightarrow> 'b \<Rightarrow> (error + UpdateSummary list) \<times> 'b"
  Preview :: "optpreview_Option list \<Rightarrow> 'b \<Rightarrow> (error + PreviewResult) \<times> 'b"
  Refresh :: "optrefresh_Option list \<Rightarrow> 'b \<Rightarrow> (error + RefreshResult) \<times> 'b"
  Up :: "optup_Option list \<Rightarrow> 'b \<Rightarrow> (error + UpResult) \<times> 'b"

type_synonym 'b StackOperator =
  "string \<Rightarrow> string \<Rightarrow> 'b \<Rightarrow> (error + 'b RollbackStack) \<times> 'b"

definition RealRollbackStack :: "'b auto_Stack \<Rightarrow> 'b RollbackStack" where
  "RealRollbackStack stack =
     \<lparr>Export = auto_Export stack,
      Import = (\<lambda>state. auto_Import stack state),
      History = (\<lambda>pageSize page. auto_History stack pageSize page),
      Preview = (\<lambda>opts. auto_Preview stack opts),
      Refresh = (\<lambda>opts. auto_Refresh stack opts),
      Up = (\<lambda>opts. auto_Up stack opts)\<rparr>"

definition DefaultStackOperator :: "'b externals \<Rightarrow> 'b StackOperator" where
  "DefaultStackOperator X stackName projectPath b =
     (case auto_SelectStackLocalSource X stackName projectPath b of
        (Inl err, b') \<Rightarrow> (Inl err, b')
      | (Inr stack, b') \<Rightarrow> (Inr (RealRollbackStack stack), b'))"

definition DefaultOperator :: "'b externals \<Rightarrow> 'b StackOperator" where
  "DefaultOperator X = DefaultStackOperator X"

text \<open>
  The interface calls of this package.  Each runs the method on the backend and appends
  the call, with its arguments and its outcome, to the log.
\<close>

definition operator_SelectStack ::
  "'b StackOperator \<Rightarrow> string \<Rightarrow> string \<Rightarrow> 'b world \<Rightarrow> (error + 'b RollbackStack) \<times> 'b world" where
  "operator_SelectStack operator stackName projectPath w =
     (case operator stackName projectPath (backend w) of
        (Inl err, b) \<Rightarrow>
          (Inl err, w\<lparr>backend := b,
                      calls := calls w @ [Call_SelectStack stackName projectPath (Some err)]\<rparr>)
      | (Inr stack, b) \<Rightarrow>
          (Inr stack, w\<lparr>backend := b,
                        calls := calls w @ [Call_SelectStack stackName projectPath None]\<rparr>))"

definition stack_Export ::
  "'b RollbackStack \<Rightarrow> 'b world \<Rightarrow> (error + UntypedDeployment) \<times> 'b world" where
  "stack_Export stack w =
     (case Export stack (backend w) of
        (r, b) \<Rightarrow> (r, w\<lparr>backend := b, calls := calls w @ [Call_Export r]\<rparr>))"

definition stack_Import ::
  "'b RollbackStack \<Rightarrow> UntypedDeployment \<Rightarrow> 'b world \<Rightarrow> error option \<times> 'b world" where
  "stack_Import stack state w =
     (case Import stack state (backend w) of
        (r, b) \<Rightarrow> (r, w\<lparr>backend := b, calls := calls w @ [Call_Import state r]\<rparr>))"

definition stack_History ::
  "'b RollbackStack \<Rightarrow> int \<Rightarrow> int \<Rightarrow> 'b world \<Rightarrow> (error + UpdateSummary list) \<times> 'b world" where
  "stack_History stack pageSize page w =
     (case History stack pageSize page (backend w) of
        (r, b) \<Rightarrow> (r, w\<lparr>backend := b, calls := calls w @ [Call_History pageSize page r]\<rparr>))"

definition stack_Preview ::
  "'b RollbackStack \<Rightarrow> optpreview_Option list \<Rightarrow> 'b world \<Rightarrow> (error + PreviewResult) \<times> 'b world" where
  "stack_Preview stack opts w =
     (case Preview stack opts (backend w) of
        (r, b) \<Rightarrow> (r, w\<lparr>backend := b, calls := calls w @ [Call_Preview opts r]\<rparr>))"

definition stack_Refresh ::
  "'b RollbackStack \<Rightarrow> optrefresh_Option list \<Rightarrow> 'b world \<Rightarrow> (error + RefreshResult) \<times> 'b world" where
  "stack_Refresh stack opts w =
     (case Refresh stack opts (backend w) of
        (r, b) \<Rightarrow> (r, w\<lparr>backend := b, calls := calls w @ [Call_Refresh opts r]\<rparr>))"

definition stack_Up ::
  "'b RollbackStack \<Rightarrow> optup_Option list \<Rightarrow> 'b world \<Rightarrow> (error + UpResult) \<times> 'b world" where
  "stack_Up stack opts w =
     (case Up stack opts (backend w) of
        (r, b) \<Rightarrow> (r, w\<lparr>backend := b, calls := calls w @ [Call_Up opts r]\<rparr>))"

text \<open>The calls a run has added to the log: those of \<open>w'\<close> after those of \<open>w\<close>.\<close>

definition new_calls :: "'b world \<Rightarrow> 'b world \<Rightarrow> call list" where
  "new_calls w w' = drop (length (calls w)) (calls w')"

subsection \<open>rollback.go\<close>

record 'b RollbackOptions =
  ProjectPath :: string
  StackName :: string
  TargetVersion :: int
  DryRun :: bool
  Verbose :: bool
  Output :: "Writer option"
  Operator :: "'b StackOperator option"

record RollbackResult =
  Success :: bool
  Message :: string
  ResourceChanges :: "string \<rightharpoonup> int"
  Stdout :: string
  Stderr :: string

fun VersionExistsInHistory :: "UpdateSummary list \<Rightarrow> int \<Rightarrow> bool" where
  "VersionExistsInHistory [] version = False"
| "VersionExistsInHistory (update # history) version =
     (if Summary_Version update = version then True
      else VersionExistsInHistory history version)"

definition ValidateDeployment :: "'b externals \<Rightarrow> UntypedDeployment \<Rightarrow> error option" where
  "ValidateDeployment X deployment = json_Unmarshal X (Untyped_Deployment deployment)"

definition convertOpTypeChangeSummary :: "(OpType \<rightharpoonup> int) option \<Rightarrow> (string \<rightharpoonup> int)" where
  "convertOpTypeChangeSummary summary =
     (case summary of None \<Rightarrow> Map.empty | Some m \<Rightarrow> Map.empty ++ m)"

text \<open>
  \<^verbatim>\<open>GetCheckpointForVersion\<close>: the history is fetched and searched for the version; the
  deployment that is validated and returned is the one \<^verbatim>\<open>stack.Export\<close> gives.
\<close>

definition GetCheckpointForVersion ::
  "'b externals \<Rightarrow> 'b RollbackStack \<Rightarrow> int \<Rightarrow> 'b world \<Rightarrow> (error + UntypedDeployment) \<times> 'b world" where
  "GetCheckpointForVersion X stack version w =
     (case stack_History stack 0 0 w of
        (Inl err, w1) \<Rightarrow> (Inl (fmt_Errorf ''failed to get history: '' err), w1)
      | (Inr history, w1) \<Rightarrow>
          (if \<not> VersionExistsInHistory history version
           then (Inl (errors_New (''version '' @ fmt_d version @ '' not found in history'')), w1)
           else
             (case stack_Export stack w1 of
                (Inl err, w2) \<Rightarrow> (Inl (fmt_Errorf ''failed to export deployment: '' err), w2)
              | (Inr deployment, w2) \<Rightarrow>
                  (case ValidateDeployment X deployment of
                     Some err \<Rightarrow> (Inl (fmt_Errorf ''failed to parse deployment: '' err), w2)
                   | None \<Rightarrow> (Inr deployment, w2)))))"

definition PreviewRollback ::
  "'b externals \<Rightarrow> 'b RollbackOptions \<Rightarrow> 'b world \<Rightarrow> (error + RollbackResult) \<times> 'b world" where
  "PreviewRollback X opts w =
     (let output = (case Output opts of None \<Rightarrow> os_Stdout | Some wr \<Rightarrow> wr);
          operator = (case Operator opts of None \<Rightarrow> DefaultOperator X | Some operator \<Rightarrow> operator)
      in
      case operator_SelectStack operator (StackName opts) (ProjectPath opts) w of
        (Inl err, w1) \<Rightarrow> (Inl (fmt_Errorf ''failed to select stack: '' err), w1)
      | (Inr stack, w1) \<Rightarrow>
      (case stack_Export stack w1 of
        (Inl err, w2) \<Rightarrow> (Inl (fmt_Errorf ''failed to export current state: '' err), w2)
      | (Inr currentState, w2) \<Rightarrow>
      (case GetCheckpointForVersion X stack (TargetVersion opts) w2 of
        (Inl err, w3) \<Rightarrow>
          (Inl (fmt_Errorf (''failed to get checkpoint for version ''
                              @ fmt_d (TargetVersion opts) @ '': '') err), w3)
      | (Inr targetCheckpoint, w3) \<Rightarrow>
      (case stack_Import stack targetCheckpoint w3 of
        (Some err, w4) \<Rightarrow> (Inl (fmt_Errorf ''failed to import target state: '' err), w4)
      | (None, w4) \<Rightarrow>
      (let previewOpts =
             [optpreview_Message (''Preview rollback to version '' @ fmt_d (TargetVersion opts))]
       in
       case stack_Preview stack previewOpts w4 of
        (preview, w5) \<Rightarrow>
      (case stack_Import stack currentState w5 of
        (restoreErr, w6) \<Rightarrow>
      (let w7 = (case restoreErr of
                   Some rerr \<Rightarrow>
                     Fprintf output
                       (''Warning: failed to restore current state: '' @ Error rerr @ nl) w6
                 | None \<Rightarrow> w6)
       in
       case preview of
         Inl err \<Rightarrow> (Inl (fmt_Errorf ''preview failed: '' err), w7)
       | Inr result \<Rightarrow>
           (Inr \<lparr>Success = True,
                 Message = ''Preview of rollback to version '' @ fmt_d (TargetVersion opts)
                             @ '' completed'',
                 ResourceChanges = convertOpTypeChangeSummary (Preview_ChangeSummary result),
                 Stdout = Preview_StdOut result,
                 Stderr = Preview_StdErr result\<rparr>, w7))))))))"

definition ExecuteRollback ::
  "'b externals \<Rightarrow> 'b RollbackOptions \<Rightarrow> 'b world \<Rightarrow> (error + RollbackResult) \<times> 'b world" where
  "ExecuteRollback X opts w =
     (let output = (case Output opts of None \<Rightarrow> os_Stdout | Some wr \<Rightarrow> wr);
          operator = (case Operator opts of None \<Rightarrow> DefaultOperator X | Some operator \<Rightarrow> operator)
      in
      case operator_SelectStack operator (StackName opts) (ProjectPath opts) w of
        (Inl err, w1) \<Rightarrow> (Inl (fmt_Errorf ''failed to select stack: '' err), w1)
      | (Inr stack, w1) \<Rightarrow>
      (case GetCheckpointForVersion X stack (TargetVersion opts) w1 of
        (Inl err, w2) \<Rightarrow>
          (Inl (fmt_Errorf (''failed to get checkpoint for version ''
                              @ fmt_d (TargetVersion opts) @ '': '') err), w2)
      | (Inr targetCheckpoint, w2) \<Rightarrow>
      (case stack_Import stack targetCheckpoint w2 of
        (Some err, w3) \<Rightarrow> (Inl (fmt_Errorf ''failed to import target state: '' err), w3)
      | (None, w3) \<Rightarrow>
      (case stack_Refresh stack []
              (Fprintf output (''Refreshing stack to reconcile with target state...'' @ nl) w3) of
        (Inl err, w4) \<Rightarrow> (Inl (fmt_Errorf ''refresh failed: '' err), w4)
      | (Inr _, w4) \<Rightarrow>
      (let upOpts = [optup_Message (''Rollback to version '' @ fmt_d (TargetVersion opts))]
       in
       case stack_Up stack upOpts (Fprintf output (''Applying rollback changes...'' @ nl) w4) of
        (Inl err, w5) \<Rightarrow> (Inl (fmt_Errorf ''rollback failed: '' err), w5)
      | (Inr result, w5) \<Rightarrow>
          (let changes = (case Summary_ResourceChanges (Up_Summary result) of
                            None \<Rightarrow> Map.empty
                          | Some m \<Rightarrow> Map.empty ++ m)
           in
           (Inr \<lparr>Success = True,
                 Message = ''Successfully rolled back to version '' @ fmt_d (TargetVersion opts),
                 ResourceChanges = changes,
                 Stdout = Up_StdOut result,
                 Stderr = Up_StdErr result\<rparr>, w5)))))))"

section \<open>Package cmd\<close>

text \<open>
  The package's flag variables, and what its code takes from outside the repository:
  the SDK and JSON of package rollback, package time, the process environment, reading a
  line from standard input (\<^verbatim>\<open>bufio.NewReader(os.Stdin).ReadString('\n')\<close>, from the
  unread input to the result and the input left), two functions of package strings, and
  the order in which a \<^verbatim>\<open>range\<close> loop visits the entries of a map.
\<close>

record cmd_flags =
  stackName :: string
  projectPath :: string
  verbose :: bool
  rollbackVersion :: int
  skipConfirm :: bool

record ('b, 't) cmd_externals =
  sdk :: "'b externals"
  time_lib :: "'t time_pkg"
  os_Getenv :: "string \<Rightarrow> string"
  Stdin_ReadString :: "string \<Rightarrow> (error + string) \<times> string"
  strings_ToLower :: "string \<Rightarrow> string"
  strings_TrimSpace :: "string \<Rightarrow> string"
  map_range :: "(string \<rightharpoonup> int) \<Rightarrow> (string \<times> int) list"

definition getStackName :: "('b, 't) cmd_externals \<Rightarrow> cmd_flags \<Rightarrow> error + string" where
  "getStackName E F =
     (if stackName F \<noteq> [] then Inr (stackName F)
      else (let envStack = os_Getenv E ''PULUMI_STACK''
            in if envStack \<noteq> [] then Inr envStack
               else Inl (errors_New
                 ''stack name is required: use --stack flag or set PULUMI_STACK environment variable'')))"

definition getProjectPath :: "cmd_flags \<Rightarrow> string" where
  "getProjectPath F = projectPath F"

definition isVerbose :: "cmd_flags \<Rightarrow> bool" where
  "isVerbose F = verbose F"

definition formatTime :: "'t time_pkg \<Rightarrow> 't \<Rightarrow> string" where
  "formatTime T t = (if time_IsZero T t then ''N/A'' else time_Format T t)"

text \<open>
  \<^verbatim>\<open>runRollback\<close> of to.go.  \<^verbatim>\<open>fmt.Println\<close> and \<^verbatim>\<open>fmt.Printf\<close> write to
  \<^verbatim>\<open>os.Stdout\<close>; \<^verbatim>\<open>Println\<close> puts a space between its operands and a newline
  after them.  The two literals that are not ASCII are given by their UTF-8 bytes.
  \<open>confirmation\<close> is the block of the prompt: \<open>Some r\<close> when it returns \<open>r\<close> from the
  function, \<open>None\<close> when the function goes on.
\<close>

definition runRollback ::
  "('b, 't) cmd_externals \<Rightarrow> cmd_flags \<Rightarrow> 'b world \<Rightarrow> error option \<times> 'b world" where
  "runRollback E F w =
     (case getStackName E F of
        Inl err \<Rightarrow> (Some err, w)
      | Inr stack \<Rightarrow>
      (let projectPath = getProjectPath F
       in
       case GetUpdateByVersion (sdk E) (time_lib E) projectPath stack (rollbackVersion F) w of
        (Inl err, w1) \<Rightarrow>
          (Some (fmt_Errorf (''failed to find version '' @ fmt_d (rollbackVersion F) @ '': '') err),
           w1)
      | (Inr update, w1) \<Rightarrow>
      (case GetLatestVersion (sdk E) (time_lib E) projectPath stack w1 of
        (Inl err, w2) \<Rightarrow> (Some (fmt_Errorf ''failed to get latest version: '' err), w2)
      | (Inr latest, w2) \<Rightarrow>
      (if rollbackVersion F = latest
       then (None,
             Fprintf os_Stdout
               (''Version '' @ fmt_d (rollbackVersion F)
                  @ '' is the current version. No rollback needed.'' @ nl) w2)
       else
      (let w3 = Fprintf os_Stdout
                  (''Rolling back stack '' @ [CHR 0x27] @ stack @ [CHR 0x27] @ '' to version ''
                     @ fmt_d (rollbackVersion F) @ nl) w2;
           w3 = Fprintf os_Stdout (''  Kind: '' @ Info_Kind update @ nl) w3;
           w3 = Fprintf os_Stdout (''  Result: '' @ Info_Result update @ nl) w3;
           w3 = Fprintf os_Stdout
                  (''  Time: '' @ formatTime (time_lib E) (Info_StartTime update) @ nl) w3;
           w3 = (if Info_Message update \<noteq> []
                 then Fprintf os_Stdout (''  Message: '' @ Info_Message update @ nl) w3
                 else w3);
           w3 = Fprintf os_Stdout nl w3;
           w3 = Fprintf os_Stdout
                  ([CHR 0xE2, CHR 0x9A, CHR 0xA0, CHR 0xEF, CHR 0xB8, CHR 0x8F]
                     @ ''  WARNING: This will modify your infrastructure!'' @ nl) w3;
           w3 = Fprintf os_Stdout (''   Current version: '' @ fmt_d latest @ nl) w3;
           w3 = Fprintf os_Stdout
                  (''   Target version:  '' @ fmt_d (rollbackVersion F) @ nl) w3;
           w3 = Fprintf os_Stdout nl w3;
           confirmation =
             (if \<not> skipConfirm F
              then
                (let w4 = Fprintf os_Stdout ''Do you want to proceed? [y/N]: '' w3
                 in
                 case Stdin_ReadString E (stdin w4) of
                   (Inl err, rest) \<Rightarrow>
                     (Some (Some (fmt_Errorf ''failed to read response: '' err)),
                      w4\<lparr>stdin := rest\<rparr>)
                 | (Inr response, rest) \<Rightarrow>
                     (let response = strings_TrimSpace E (strings_ToLower E response)
                      in if response \<noteq> ''y'' \<and> response \<noteq> ''yes''
                         then (Some None,
                               Fprintf os_Stdout (''Rollback cancelled.'' @ nl)
                                 (w4\<lparr>stdin := rest\<rparr>))
                         else (None, w4\<lparr>stdin := rest\<rparr>)))
              else (None, w3))
       in
       case confirmation of
         (Some returned, w5) \<Rightarrow> (returned, w5)
       | (None, w5) \<Rightarrow>
      (let w6 = Fprintf os_Stdout (nl @ ''Starting rollback...'' @ nl) w5;
           opts = \<lparr>ProjectPath = projectPath,
                   StackName = stack,
                   TargetVersion = rollbackVersion F,
                   DryRun = False,
                   Verbose = isVerbose F,
                   Output = Some os_Stdout,
                   Operator = None\<rparr>
       in
       case ExecuteRollback (sdk E) opts w6 of
         (Inl err, w7) \<Rightarrow> (Some (fmt_Errorf ''rollback failed: '' err), w7)
       | (Inr result, w7) \<Rightarrow>
      (let w8 = Fprintf os_Stdout
                  (nl @ [CHR 0xE2, CHR 0x9C, CHR 0x93] @ '' '' @ Message result @ nl) w7;
           w9 = (if ResourceChanges result \<noteq> Map.empty
                 then foldl (\<lambda>wa (change, count).
                               Fprintf os_Stdout
                                 (''  '' @ change @ '': '' @ fmt_d count @ nl) wa)
                        (Fprintf os_Stdout (nl @ ''Resource changes applied:'' @ nl) w8)
                        (map_range E (ResourceChanges result))
                 else w8)
       in (None, w9))))))))"

section \<open>Vocabulary of the theorems\<close>

text \<open>
  The writer a flow of package rollback writes to: \<^verbatim>\<open>opts.Output\<close>, and
  \<^verbatim>\<open>os.Stdout\<close> when it is \<^verbatim>\<open>nil\<close>.
\<close>

definition effective_output :: "'b RollbackOptions \<Rightarrow> Writer" where
  "effective_output opts = (case Output opts of None \<Rightarrow> os_Stdout | Some wr \<Rightarrow> wr)"

fun is_Export :: "call \<Rightarrow> bool" where
  "is_Export (Call_Export _) = True"
| "is_Export _ = False"

fun is_Refresh :: "call \<Rightarrow> bool" where
  "is_Refresh (Call_Refresh _ _) = True"
| "is_Refresh _ = False"

fun is_Up :: "call \<Rightarrow> bool" where
  "is_Up (Call_Up _ _) = True"
| "is_Up _ = False"

text \<open>
  A run from \<open>w\<close> to \<open>w'\<close> has aborted at the call \<open>c\<close>: \<open>c\<close> is the last call it
  made, none of its calls is mutating, and it has written nothing.
\<close>

definition aborted_at :: "'b world \<Rightarrow> 'b world \<Rightarrow> call \<Rightarrow> bool" where
  "aborted_at w w' c \<longleftrightarrow>
     new_calls w w' \<noteq> [] \<and> last (new_calls w w') = c
     \<and> (\<forall>x\<in>set (new_calls w w'). \<not> mutating x) \<and> written w' = written w"

text \<open>
  The error both flows make of a failure \<open>err\<close> of \<^verbatim>\<open>GetCheckpointForVersion\<close>:
  \<^verbatim>\<open>fmt.Errorf("failed to get checkpoint for version %d: %w", version, err)\<close>.
\<close>

definition checkpoint_error :: "int \<Rightarrow> error \<Rightarrow> error" where
  "checkpoint_error v err =
     fmt_Errorf (''failed to get checkpoint for version '' @ fmt_d v @ '': '') err"

section \<open>A test double\<close>

text \<open>
  An in-memory deployment backend in the manner of \<^verbatim>\<open>MockRollbackStack\<close> of
  rollback\_test.go, on which the theorems below are run.  It holds the committed state,
  the recorded deployments (most recent first) each with the checkpoint stored for it,
  and a script of failures: an error for \<^verbatim>\<open>SelectStack\<close> and for \<^verbatim>\<open>History\<close>, the
  outcomes of the coming \<^verbatim>\<open>Export\<close> and \<^verbatim>\<open>Import\<close> calls (success when the script
  is empty), and the outcomes of \<^verbatim>\<open>Preview\<close>, \<^verbatim>\<open>Refresh\<close> and \<^verbatim>\<open>Up\<close>.
  \<^verbatim>\<open>Export\<close> returns the committed state; a successful \<^verbatim>\<open>Import\<close> replaces it.
\<close>

record mock_backend =
  mock_committed :: UntypedDeployment
  mock_recorded :: "(UpdateSummary \<times> UntypedDeployment) list"
  mock_select :: "error option"
  mock_history :: "error option"
  mock_exports :: "error option list"
  mock_imports :: "error option list"
  mock_preview :: "error + PreviewResult"
  mock_refresh :: "error + RefreshResult"
  mock_up :: "error + UpResult"

definition mock_Export :: "mock_backend \<Rightarrow> (error + UntypedDeployment) \<times> mock_backend" where
  "mock_Export b =
     (case mock_exports b of
        [] \<Rightarrow> (Inr (mock_committed b), b)
      | None # script \<Rightarrow> (Inr (mock_committed b), b\<lparr>mock_exports := script\<rparr>)
      | Some err # script \<Rightarrow> (Inl err, b\<lparr>mock_exports := script\<rparr>))"

definition mock_Import :: "UntypedDeployment \<Rightarrow> mock_backend \<Rightarrow> error option \<times> mock_backend" where
  "mock_Import state b =
     (case mock_imports b of
        [] \<Rightarrow> (None, b\<lparr>mock_committed := state\<rparr>)
      | None # script \<Rightarrow> (None, b\<lparr>mock_committed := state, mock_imports := script\<rparr>)
      | Some err # script \<Rightarrow> (Some err, b\<lparr>mock_imports := script\<rparr>))"

definition mock_History ::
  "int \<Rightarrow> int \<Rightarrow> mock_backend \<Rightarrow> (error + UpdateSummary list) \<times> mock_backend" where
  "mock_History pageSize page b =
     (case mock_history b of
        Some err \<Rightarrow> (Inl err, b)
      | None \<Rightarrow> (Inr (map fst (mock_recorded b)), b))"

definition mock_Stack :: "mock_backend auto_Stack" where
  "mock_Stack =
     \<lparr>auto_Export = mock_Export,
      auto_Import = mock_Import,
      auto_History = mock_History,
      auto_Preview = (\<lambda>opts b. (mock_preview b, b)),
      auto_Refresh = (\<lambda>opts b. (mock_refresh b, b)),
      auto_Up = (\<lambda>opts b. (mock_up b, b))\<rparr>"

definition mock_SelectStackLocalSource ::
  "string \<Rightarrow> string \<Rightarrow> mock_backend \<Rightarrow> (error + mock_backend auto_Stack) \<times> mock_backend" where
  "mock_SelectStackLocalSource name path b =
     (case mock_select b of Some err \<Rightarrow> (Inl err, b) | None \<Rightarrow> (Inr mock_Stack, b))"

text \<open>
  The checkpoint the test double has stored for a version: what a retrieval per version
  would read.
\<close>

definition stored_checkpoint :: "mock_backend \<Rightarrow> int \<Rightarrow> UntypedDeployment option" where
  "stored_checkpoint b v =
     map_option snd (find (\<lambda>record. Summary_Version (fst record) = v) (mock_recorded b))"

text \<open>
  The externals of the test double.  Its JSON parser knows the two valid documents of
  \<^verbatim>\<open>TestValidateDeployment\<close> and the documents \<^verbatim>\<open>{"v":1}\<close> and \<^verbatim>\<open>{"v":2}\<close> used
  below; it refuses everything else.
\<close>

definition mock_Unmarshal :: "string \<Rightarrow> error option" where
  "mock_Unmarshal doc =
     (if doc = ''{}'' \<or> doc = ''{\"key\": \"value\"}'' \<or> doc = ''{\"v\":1}'' \<or> doc = ''{\"v\":2}''
      then None
      else if doc = [] then Some (errors_New ''unexpected end of JSON input'')
      else Some (errors_New ''invalid character''))"

definition mock_externals :: "mock_backend externals" where
  "mock_externals =
     \<lparr>auto_SelectStackLocalSource = mock_SelectStackLocalSource,
      json_Unmarshal = mock_Unmarshal\<rparr>"

definition mock_time :: "nat time_pkg" where
  "mock_time =
     \<lparr>time_Parse_RFC3339 = (\<lambda>s. None), time_Zero = 0,
      time_IsZero = (\<lambda>t. t = 0), time_Format = (\<lambda>t. ''2006-01-02 15:04'')\<rparr>"

definition mock_cmd_externals :: "(mock_backend, nat) cmd_externals" where
  "mock_cmd_externals =
     \<lparr>sdk = mock_externals,
      time_lib = mock_time,
      os_Getenv = (\<lambda>name. []),
      Stdin_ReadString = (\<lambda>input. (Inl (errors_New ''EOF''), [])),
      strings_ToLower = (\<lambda>s. s),
      strings_TrimSpace = (\<lambda>s. s),
      map_range = (\<lambda>m. [])\<rparr>"

definition summary :: "int \<Rightarrow> UpdateSummary" where
  "summary v =
     \<lparr>Summary_Version = v, Summary_Kind = ''update'', Summary_StartTime = [],
      Summary_Message = [], Summary_Result = ''succeeded'', Summary_EndTime = None,
      Summary_ResourceChanges = None\<rparr>"

definition info :: "int \<Rightarrow> nat UpdateInfo" where
  "info v = ConvertUpdate mock_time (summary v)"

definition checkpoint :: "int \<Rightarrow> UntypedDeployment" where
  "checkpoint v =
     \<lparr>Untyped_Version = 3,
      Untyped_Deployment =
        (if v = 1 then ''{\"v\":1}'' else if v = 2 then ''{\"v\":2}'' else ''{}'')\<rparr>"

definition invalid_checkpoint :: UntypedDeployment where
  "invalid_checkpoint = \<lparr>Untyped_Version = 3, Untyped_Deployment = ''{invalid}''\<rparr>"

text \<open>
  A stack with two recorded deployments, whose committed state is the checkpoint of the
  latest one, version 2; \<^verbatim>\<open>Preview\<close> reports one resource to create.
\<close>

definition mock_backend0 :: mock_backend where
  "mock_backend0 =
     \<lparr>mock_committed = checkpoint 2,
      mock_recorded = [(summary 2, checkpoint 2), (summary 1, checkpoint 1)],
      mock_select = None,
      mock_history = None,
      mock_exports = [],
      mock_imports = [],
      mock_preview = Inr \<lparr>Preview_StdOut = ''preview output'', Preview_StdErr = [],
                           Preview_ChangeSummary = Some [''create'' \<mapsto> 1]\<rparr>,
      mock_refresh = Inr \<lparr>Refresh_StdOut = [], Refresh_StdErr = [],
                           Refresh_Summary = summary 3\<rparr>,
      mock_up = Inr \<lparr>Up_StdOut = ''up output'', Up_StdErr = [], Up_Summary = summary 3\<rparr>\<rparr>"

definition mock_world :: "mock_backend \<Rightarrow> mock_backend world" where
  "mock_world b = \<lparr>backend = b, calls = [], written = (\<lambda>wr. []), stdin = []\<rparr>"

definition mock_opts :: "int \<Rightarrow> mock_backend RollbackOptions" where
  "mock_opts v =
     \<lparr>ProjectPath = ''/path/to/project'', StackName = ''test-stack'', TargetVersion = v,
      DryRun = False, Verbose = False, Output = Some (bytes_Buffer 0), Operator = None\<rparr>"

definition mock_flags :: "int \<Rightarrow> cmd_flags" where
  "mock_flags v =
     \<lparr>stackName = ''test-stack'', projectPath = ''/path/to/project'', verbose = False,
      rollbackVersion = v, skipConfirm = True\<rparr>"

section \<open>How the calls and the writers change\<close>

lemma operator_SelectStack_log:
  assumes "operator_SelectStack operator n p w = (r, w1)"
  shows "calls w1 = calls w @ [Call_SelectStack n p (case r of Inl err \<Rightarrow> Some err | Inr _ \<Rightarrow> None)]"
    and "written w1 = written w"
  using assms unfolding operator_SelectStack_def
  by (auto split: prod.splits sum.splits)

lemma stack_Export_log:
  assumes "stack_Export stack w = (r, w1)"
  shows "calls w1 = calls w @ [Call_Export r]" and "written w1 = written w"
  using assms unfolding stack_Export_def by (auto split: prod.splits)

lemma stack_Import_log:
  assumes "stack_Import stack d w = (r, w1)"
  shows "calls w1 = calls w @ [Call_Import d r]" and "written w1 = written w"
  using assms unfolding stack_Import_def by (auto split: prod.splits)

lemma stack_History_log:
  assumes "stack_History stack ps p w = (r, w1)"
  shows "calls w1 = calls w @ [Call_History ps p r]" and "written w1 = written w"
  using assms unfolding stack_History_def by (auto split: prod.splits)

lemma stack_Preview_log:
  assumes "stack_Preview stack po w = (r, w1)"
  shows "calls w1 = calls w @ [Call_Preview po r]" and "written w1 = written w"
  using assms unfolding stack_Preview_def by (auto split: prod.splits)

lemma stack_Refresh_log:
  assumes "stack_Refresh stack po w = (r, w1)"
  shows "calls w1 = calls w @ [Call_Refresh po r]" and "written w1 = written w"
  using assms unfolding stack_Refresh_def by (auto split: prod.splits)

lemma stack_Up_log:
  assumes "stack_Up stack po w = (r, w1)"
  shows "calls w1 = calls w @ [Call_Up po r]" and "written w1 = written w"
  using assms unfolding stack_Up_def by (auto split: prod.splits)

lemma Fprintf_log [simp]:
  "calls (Fprintf wr s w) = calls w"
  "backend (Fprintf wr s w) = backend w"
  "written (Fprintf wr s w) = (written w)(wr := written w wr @ s)"
  by (simp_all add: Fprintf_def)

lemma GetCheckpointForVersion_cases:
  assumes "GetCheckpointForVersion X stack v w = (res, w')"
  obtains
    (history_error) err where
      "calls w' = calls w @ [Call_History 0 0 (Inl err)]"
      "res = Inl (fmt_Errorf ''failed to get history: '' err)"
  | (version_not_found) history where
      "calls w' = calls w @ [Call_History 0 0 (Inr history)]"
      "\<not> VersionExistsInHistory history v"
      "res = Inl (errors_New (''version '' @ fmt_d v @ '' not found in history''))"
  | (export_error) history err where
      "calls w' = calls w @ [Call_History 0 0 (Inr history), Call_Export (Inl err)]"
      "VersionExistsInHistory history v"
      "res = Inl (fmt_Errorf ''failed to export deployment: '' err)"
  | (parse_error) history deployment err where
      "calls w' = calls w @ [Call_History 0 0 (Inr history), Call_Export (Inr deployment)]"
      "VersionExistsInHistory history v"
      "ValidateDeployment X deployment = Some err"
      "res = Inl (fmt_Errorf ''failed to parse deployment: '' err)"
  | (found) history deployment where
      "calls w' = calls w @ [Call_History 0 0 (Inr history), Call_Export (Inr deployment)]"
      "VersionExistsInHistory history v"
      "ValidateDeployment X deployment = None"
      "res = Inr deployment"
  using assms
  unfolding GetCheckpointForVersion_def stack_History_def stack_Export_def
  by (auto split: prod.splits sum.splits option.splits if_splits)

lemma GetCheckpointForVersion_written:
  "GetCheckpointForVersion X stack v w = (res, w') \<Longrightarrow> written w' = written w"
  unfolding GetCheckpointForVersion_def stack_History_def stack_Export_def
  by (auto split: prod.splits sum.splits option.splits if_splits)

lemma PreviewRollback_cases:
  assumes run: "PreviewRollback X opts w = (res, w')"
  obtains
    (select_failed) err where
      "calls w' = calls w @ [Call_SelectStack (StackName opts) (ProjectPath opts) (Some err)]"
      "res = Inl (fmt_Errorf ''failed to select stack: '' err)"
      "written w' = written w"
  | (export_failed) err where
      "calls w' = calls w @ [Call_SelectStack (StackName opts) (ProjectPath opts) None,
                             Call_Export (Inl err)]"
      "res = Inl (fmt_Errorf ''failed to export current state: '' err)"
      "written w' = written w"
  | (history_failed) cur err where
      "calls w' = calls w @ [Call_SelectStack (StackName opts) (ProjectPath opts) None,
                             Call_Export (Inr cur), Call_History 0 0 (Inl err)]"
      "res = Inl (fmt_Errorf (''failed to get checkpoint for version ''
                                @ fmt_d (TargetVersion opts) @ '': '')
                    (fmt_Errorf ''failed to get history: '' err))"
      "written w' = written w"
  | (not_found) cur history where
      "calls w' = calls w @ [Call_SelectStack (StackName opts) (ProjectPath opts) None,
                             Call_Export (Inr cur), Call_History 0 0 (Inr history)]"
      "\<not> VersionExistsInHistory history (TargetVersion opts)"
      "res = Inl (fmt_Errorf (''failed to get checkpoint for version ''
                                @ fmt_d (TargetVersion opts) @ '': '')
                    (errors_New (''version '' @ fmt_d (TargetVersion opts)
                                   @ '' not found in history'')))"
      "written w' = written w"
  | (checkpoint_export_failed) cur history err where
      "calls w' = calls w @ [Call_SelectStack (StackName opts) (ProjectPath opts) None,
                             Call_Export (Inr cur), Call_History 0 0 (Inr history),
                             Call_Export (Inl err)]"
      "VersionExistsInHistory history (TargetVersion opts)"
      "res = Inl (fmt_Errorf (''failed to get checkpoint for version ''
                                @ fmt_d (TargetVersion opts) @ '': '')
                    (fmt_Errorf ''failed to export deployment: '' err))"
      "written w' = written w"
  | (parse_failed) cur history deployment err where
      "calls w' = calls w @ [Call_SelectStack (StackName opts) (ProjectPath opts) None,
                             Call_Export (Inr cur), Call_History 0 0 (Inr history),
                             Call_Export (Inr deployment)]"
      "VersionExistsInHistory history (TargetVersion opts)"
      "ValidateDeployment X deployment = Some err"
      "res = Inl (fmt_Errorf (''failed to get checkpoint for version ''
                                @ fmt_d (TargetVersion opts) @ '': '')
                    (fmt_Errorf ''failed to parse deployment: '' err))"
      "written w' = written w"
  | (import_failed) cur history tgt err where
      "calls w' = calls w @ [Call_SelectStack (StackName opts) (ProjectPath opts) None,
                             Call_Export (Inr cur), Call_History 0 0 (Inr history),
                             Call_Export (Inr tgt), Call_Import tgt (Some err)]"
      "VersionExistsInHistory history (TargetVersion opts)"
      "ValidateDeployment X tgt = None"
      "res = Inl (fmt_Errorf ''failed to import target state: '' err)"
      "written w' = written w"
  | (preview_failed) cur history tgt err restoreErr where
      "calls w' = calls w @ [Call_SelectStack (StackName opts) (ProjectPath opts) None,
                             Call_Export (Inr cur), Call_History 0 0 (Inr history),
                             Call_Export (Inr tgt), Call_Import tgt None,
                             Call_Preview [optpreview_Message (''Preview rollback to version ''
                                             @ fmt_d (TargetVersion opts))] (Inl err),
                             Call_Import cur restoreErr]"
      "VersionExistsInHistory history (TargetVersion opts)"
      "ValidateDeployment X tgt = None"
      "res = Inl (fmt_Errorf ''preview failed: '' err)"
      "written w' = (case restoreErr of None \<Rightarrow> written w
           | Some rerr \<Rightarrow> (written w)(effective_output opts :=
               written w (effective_output opts)
                 @ ''Warning: failed to restore current state: '' @ Error rerr @ nl))"
  | (previewed) cur history tgt result restoreErr where
      "calls w' = calls w @ [Call_SelectStack (StackName opts) (ProjectPath opts) None,
                             Call_Export (Inr cur), Call_History 0 0 (Inr history),
                             Call_Export (Inr tgt), Call_Import tgt None,
                             Call_Preview [optpreview_Message (''Preview rollback to version ''
                                             @ fmt_d (TargetVersion opts))] (Inr result),
                             Call_Import cur restoreErr]"
      "VersionExistsInHistory history (TargetVersion opts)"
      "ValidateDeployment X tgt = None"
      "res = Inr \<lparr>Success = True,
                 Message = ''Preview of rollback to version '' @ fmt_d (TargetVersion opts)
                             @ '' completed'',
                 ResourceChanges = convertOpTypeChangeSummary (Preview_ChangeSummary result),
                 Stdout = Preview_StdOut result,
                 Stderr = Preview_StdErr result\<rparr>"
      "written w' = (case restoreErr of None \<Rightarrow> written w
           | Some rerr \<Rightarrow> (written w)(effective_output opts :=
               written w (effective_output opts)
                 @ ''Warning: failed to restore current state: '' @ Error rerr @ nl))"
proof -
  let ?operator = "case Operator opts of None \<Rightarrow> DefaultOperator X | Some operator \<Rightarrow> operator"
  obtain r1 w1 where s1:
    "operator_SelectStack ?operator (StackName opts) (ProjectPath opts) w = (r1, w1)"
    by fastforce
  note l1 = operator_SelectStack_log [OF s1]
  show thesis
  proof (cases r1)
    case (Inl err)
    with run s1 have "res = Inl (fmt_Errorf ''failed to select stack: '' err)" "w' = w1"
      by (simp_all add: PreviewRollback_def Let_def)
    with l1 Inl show thesis by (intro select_failed [of err]) simp_all
  next
    case stack: (Inr stack)
    obtain r2 w2 where s2: "stack_Export stack w1 = (r2, w2)" by fastforce
    note l2 = stack_Export_log [OF s2]
    show thesis
    proof (cases r2)
      case (Inl err)
      with run s1 stack s2
      have "res = Inl (fmt_Errorf ''failed to export current state: '' err)" "w' = w2"
        by (simp_all add: PreviewRollback_def Let_def)
      with l1 l2 stack Inl show thesis by (intro export_failed [of err]) simp_all
    next
      case cur: (Inr cur)
      obtain r3 w3 where s3: "GetCheckpointForVersion X stack (TargetVersion opts) w2 = (r3, w3)"
        by fastforce
      note wr3 = GetCheckpointForVersion_written [OF s3]
      have failed: "res = Inl (fmt_Errorf (''failed to get checkpoint for version ''
                                @ fmt_d (TargetVersion opts) @ '': '') e) \<and> w' = w3"
        if "r3 = Inl e" for e
        using that run s1 stack s2 cur s3 by (simp add: PreviewRollback_def Let_def)
      from s3 show thesis
      proof (cases rule: GetCheckpointForVersion_cases)
        case (history_error err)
        with failed [of "fmt_Errorf ''failed to get history: '' err"] l1 l2 stack cur wr3
        show thesis by (intro history_failed [of cur err]) simp_all
      next
        case (version_not_found history)
        with failed l1 l2 stack cur wr3
        show thesis by (intro not_found [of cur history]) simp_all
      next
        case (export_error history err)
        with failed l1 l2 stack cur wr3
        show thesis by (intro checkpoint_export_failed [of cur history err]) simp_all
      next
        case (parse_error history deployment err)
        with failed l1 l2 stack cur wr3
        show thesis
          by (intro parse_failed [of cur history deployment err]) simp_all
      next
        case (found history tgt)
        obtain r4 w4 where s4: "stack_Import stack tgt w3 = (r4, w4)" by fastforce
        note l4 = stack_Import_log [OF s4]
        show thesis
        proof (cases r4)
          case (Some err)
          with run s1 stack s2 cur s3 found s4
          have "res = Inl (fmt_Errorf ''failed to import target state: '' err)" "w' = w4"
            by (simp_all add: PreviewRollback_def Let_def)
          with l1 l2 l4 stack cur wr3 found Some
          show thesis by (intro import_failed [of cur history tgt err]) simp_all
        next
          case None
          let ?po = "[optpreview_Message (''Preview rollback to version ''
                                             @ fmt_d (TargetVersion opts))]"
          obtain r5 w5 where s5: "stack_Preview stack ?po w4 = (r5, w5)" by fastforce
          note l5 = stack_Preview_log [OF s5]
          obtain r6 w6 where s6: "stack_Import stack cur w5 = (r6, w6)" by fastforce
          note l6 = stack_Import_log [OF s6]
          let ?w7 = "case r6 of
                   Some rerr \<Rightarrow>
                     Fprintf (effective_output opts)
                       (''Warning: failed to restore current state: '' @ Error rerr @ nl) w6
                 | None \<Rightarrow> w6"
          have c7: "calls ?w7 = calls w6" by (simp split: option.splits)
          have wr7: "written ?w7 = (case r6 of None \<Rightarrow> written w
           | Some rerr \<Rightarrow> (written w)(effective_output opts :=
               written w (effective_output opts)
                 @ ''Warning: failed to restore current state: '' @ Error rerr @ nl))"
            using l1 l2 wr3 l4 l5 l6 by (simp split: option.splits)
          show thesis
          proof (cases r5)
            case (Inl err)
            with run s1 stack s2 cur s3 found s4 None s5 s6
            have "res = Inl (fmt_Errorf ''preview failed: '' err)" "w' = ?w7"
              by (simp_all add: PreviewRollback_def Let_def effective_output_def cong: option.case_cong)
            with l1 l2 l4 l5 l6 c7 wr7 stack cur found None Inl
            show thesis by (intro preview_failed [of cur history tgt err r6]) simp_all
          next
            case (Inr result)
            with run s1 stack s2 cur s3 found s4 None s5 s6
            have "res = Inr \<lparr>Success = True,
                 Message = ''Preview of rollback to version '' @ fmt_d (TargetVersion opts)
                             @ '' completed'',
                 ResourceChanges = convertOpTypeChangeSummary (Preview_ChangeSummary result),
                 Stdout = Preview_StdOut result,
                 Stderr = Preview_StdErr result\<rparr>" "w' = ?w7"
              by (simp_all add: PreviewRollback_def Let_def effective_output_def cong: option.case_cong)
            with l1 l2 l4 l5 l6 c7 wr7 stack cur found None Inr
            show thesis by (intro previewed [of cur history tgt result r6]) simp_all
          qed
        qed
      qed
    qed
  qed
qed

lemma ExecuteRollback_cases:
  assumes run: "ExecuteRollback X opts w = (res, w')"
  obtains
    (select_failed) err where
      "calls w' = calls w @ [Call_SelectStack (StackName opts) (ProjectPath opts) (Some err)]"
      "res = Inl (fmt_Errorf ''failed to select stack: '' err)"
      "written w' = written w"
  | (checkpoint_failed) gc err where
      "calls w' = calls w @ Call_SelectStack (StackName opts) (ProjectPath opts) None # gc"
      "\<forall>c\<in>set gc. \<not> mutating c"
      "res = Inl (fmt_Errorf (''failed to get checkpoint for version ''
                                @ fmt_d (TargetVersion opts) @ '': '') err)"
      "written w' = written w"
  | (import_failed) history tgt err where
      "calls w' = calls w @ [Call_SelectStack (StackName opts) (ProjectPath opts) None,
                             Call_History 0 0 (Inr history),
                             Call_Export (Inr tgt), Call_Import tgt (Some err)]"
      "res = Inl (fmt_Errorf ''failed to import target state: '' err)"
      "written w' = written w"
  | (refresh_failed) history tgt err where
      "calls w' = calls w @ [Call_SelectStack (StackName opts) (ProjectPath opts) None,
                             Call_History 0 0 (Inr history),
                             Call_Export (Inr tgt), Call_Import tgt None,
                             Call_Refresh [] (Inl err)]"
      "res = Inl (fmt_Errorf ''refresh failed: '' err)"
      "written w' = (written w)(effective_output opts :=
               written w (effective_output opts)
                 @ ''Refreshing stack to reconcile with target state...'' @ nl)"
  | (up_failed) history tgt refreshed err where
      "calls w' = calls w @ [Call_SelectStack (StackName opts) (ProjectPath opts) None,
                             Call_History 0 0 (Inr history),
                             Call_Export (Inr tgt), Call_Import tgt None,
                             Call_Refresh [] (Inr refreshed),
                             Call_Up [optup_Message (''Rollback to version ''
                                        @ fmt_d (TargetVersion opts))] (Inl err)]"
      "res = Inl (fmt_Errorf ''rollback failed: '' err)"
      "written w' = (written w)(effective_output opts :=
               written w (effective_output opts)
                 @ ''Refreshing stack to reconcile with target state...'' @ nl
                 @ ''Applying rollback changes...'' @ nl)"
  | (rolled_back) history tgt refreshed result where
      "calls w' = calls w @ [Call_SelectStack (StackName opts) (ProjectPath opts) None,
                             Call_History 0 0 (Inr history),
                             Call_Export (Inr tgt), Call_Import tgt None,
                             Call_Refresh [] (Inr refreshed),
                             Call_Up [optup_Message (''Rollback to version ''
                                        @ fmt_d (TargetVersion opts))] (Inr result)]"
      "res = Inr \<lparr>Success = True,
                 Message = ''Successfully rolled back to version '' @ fmt_d (TargetVersion opts),
                 ResourceChanges = (case Summary_ResourceChanges (Up_Summary result) of
                            None \<Rightarrow> Map.empty
                          | Some m \<Rightarrow> Map.empty ++ m),
                 Stdout = Up_StdOut result,
                 Stderr = Up_StdErr result\<rparr>"
      "written w' = (written w)(effective_output opts :=
               written w (effective_output opts)
                 @ ''Refreshing stack to reconcile with target state...'' @ nl
                 @ ''Applying rollback changes...'' @ nl)"
proof -
  let ?operator = "case Operator opts of None \<Rightarrow> DefaultOperator X | Some operator \<Rightarrow> operator"
  let ?out = "effective_output opts"
  have out: "(case Output opts of None \<Rightarrow> os_Stdout | Some wr \<Rightarrow> wr) = ?out"
    by (simp add: effective_output_def)
  obtain r1 w1 where s1:
    "operator_SelectStack ?operator (StackName opts) (ProjectPath opts) w = (r1, w1)"
    by fastforce
  note l1 = operator_SelectStack_log [OF s1]
  show thesis
  proof (cases r1)
    case (Inl err)
    with run s1 have "res = Inl (fmt_Errorf ''failed to select stack: '' err)" "w' = w1"
      by (simp_all add: ExecuteRollback_def Let_def)
    with l1 Inl show thesis by (intro select_failed [of err]) simp_all
  next
    case stack: (Inr stack)
    obtain r2 w2 where s2: "GetCheckpointForVersion X stack (TargetVersion opts) w1 = (r2, w2)"
      by fastforce
    note wr2 = GetCheckpointForVersion_written [OF s2]
    have failed: "res = Inl (fmt_Errorf (''failed to get checkpoint for version ''
                              @ fmt_d (TargetVersion opts) @ '': '') e) \<and> w' = w2"
      if "r2 = Inl e" for e
      using that run s1 stack s2 by (simp add: ExecuteRollback_def Let_def)
    from s2 show thesis
    proof (cases rule: GetCheckpointForVersion_cases)
      case (history_error err)
      with failed l1 stack wr2
      show thesis
        by (intro checkpoint_failed [of "[Call_History 0 0 (Inl err)]"
              "fmt_Errorf ''failed to get history: '' err"]) simp_all
    next
      case (version_not_found history)
      with failed l1 stack wr2
      show thesis
        by (intro checkpoint_failed [of "[Call_History 0 0 (Inr history)]"
              "errors_New (''version '' @ fmt_d (TargetVersion opts) @ '' not found in history'')"])
           simp_all
    next
      case (export_error history err)
      with failed l1 stack wr2
      show thesis
        by (intro checkpoint_failed [of "[Call_History 0 0 (Inr history), Call_Export (Inl err)]"
              "fmt_Errorf ''failed to export deployment: '' err"]) simp_all
    next
      case (parse_error history deployment err)
      with failed l1 stack wr2
      show thesis
        by (intro checkpoint_failed
              [of "[Call_History 0 0 (Inr history), Call_Export (Inr deployment)]"
                  "fmt_Errorf ''failed to parse deployment: '' err"]) simp_all
    next
      case (found history tgt)
      obtain r3 w3 where s3: "stack_Import stack tgt w2 = (r3, w3)" by fastforce
      note l3 = stack_Import_log [OF s3]
      show thesis
      proof (cases r3)
        case (Some err)
        with run s1 stack s2 found s3
        have "res = Inl (fmt_Errorf ''failed to import target state: '' err)" "w' = w3"
          by (simp_all add: ExecuteRollback_def Let_def)
        with l1 l3 stack wr2 found Some
        show thesis by (intro import_failed [of history tgt err]) simp_all
      next
        case None
        let ?w3 = "Fprintf ?out (''Refreshing stack to reconcile with target state...'' @ nl) w3"
        obtain r4 w4 where s4: "stack_Refresh stack [] ?w3 = (r4, w4)" by fastforce
        note l4 = stack_Refresh_log [OF s4]
        show thesis
        proof (cases r4)
          case (Inl err)
          with run s1 stack s2 found s3 None s4
          have "res = Inl (fmt_Errorf ''refresh failed: '' err)" "w' = w4"
            by (simp_all add: ExecuteRollback_def Let_def out)
          with l1 l3 l4 stack wr2 found None Inl
          show thesis by (intro refresh_failed [of history tgt err]) simp_all
        next
          case refreshed: (Inr refreshed)
          let ?uo = "[optup_Message (''Rollback to version '' @ fmt_d (TargetVersion opts))]"
          let ?w4 = "Fprintf ?out (''Applying rollback changes...'' @ nl) w4"
          obtain r5 w5 where s5: "stack_Up stack ?uo ?w4 = (r5, w5)" by fastforce
          note l5 = stack_Up_log [OF s5]
          show thesis
          proof (cases r5)
            case (Inl err)
            with run s1 stack s2 found s3 None s4 refreshed s5
            have "res = Inl (fmt_Errorf ''rollback failed: '' err)" "w' = w5"
              by (simp_all add: ExecuteRollback_def Let_def out)
            with l1 l3 l4 l5 stack wr2 found None refreshed Inl
            show thesis by (intro up_failed [of history tgt refreshed err]) simp_all
          next
            case (Inr result)
            with run s1 stack s2 found s3 None s4 refreshed s5
            have "res = Inr \<lparr>Success = True,
                 Message = ''Successfully rolled back to version '' @ fmt_d (TargetVersion opts),
                 ResourceChanges = (case Summary_ResourceChanges (Up_Summary result) of
                            None \<Rightarrow> Map.empty
                          | Some m \<Rightarrow> Map.empty ++ m),
                 Stdout = Up_StdOut result,
                 Stderr = Up_StdErr result\<rparr>" "w' = w5"
              by (simp_all add: ExecuteRollback_def Let_def out)
            with l1 l3 l4 l5 stack wr2 found None refreshed Inr
            show thesis by (intro rolled_back [of history tgt refreshed result]) simp_all
          qed
        qed
      qed
    qed
  qed
qed

lemma new_calls_app [simp]: "calls w' = calls w @ cs \<Longrightarrow> new_calls w w' = cs"
  by (simp add: new_calls_def)

lemma GetCheckpointForVersion_backend:
  assumes run: "GetCheckpointForVersion X stack v w = (res, w')"
    and history: "snd (History stack 0 0 (backend w)) = backend w"
    and export: "snd (Export stack (backend w)) = backend w"
  shows "backend w' = backend w"
proof -
  obtain r1 where h: "History stack 0 0 (backend w) = (r1, backend w)"
    using history by (metis prod.collapse)
  obtain r2 where e: "Export stack (backend w) = (r2, backend w)"
    using export by (metis prod.collapse)
  from run h e show ?thesis
    unfolding GetCheckpointForVersion_def stack_History_def stack_Export_def
    by (auto split: sum.splits option.splits if_splits)
qed

lemma GetStackHistoryWithSelector_cases:
  assumes "GetStackHistoryWithSelector T path name selector w = (res, w')"
  obtains
    (select_failed) err where
      "calls w' = calls w @ [Call_SelectStack name path (Some err)]"
      "res = Inl (fmt_Errorf (''failed to select stack '' @ name @ '': '') err)"
  | (history_failed) err where
      "calls w' = calls w @ [Call_SelectStack name path None, Call_History 0 0 (Inl err)]"
      "res = Inl (fmt_Errorf ''failed to get stack history: '' err)"
  | (fetched) history where
      "calls w' = calls w @ [Call_SelectStack name path None, Call_History 0 0 (Inr history)]"
      "res = Inr (ConvertUpdates T history)"
  using assms
  unfolding GetStackHistoryWithSelector_def selector_SelectStack_def Stack_call_History_def
  by (auto split: prod.splits sum.splits)

lemma GetStackHistoryWithSelector_written:
  "GetStackHistoryWithSelector T path name selector w = (res, w') \<Longrightarrow> written w' = written w"
  unfolding GetStackHistoryWithSelector_def selector_SelectStack_def Stack_call_History_def
  by (auto split: prod.splits sum.splits)

lemma FindUpdateByVersion_Inr_iff:
  "(\<exists>r. FindUpdateByVersion H v = Inr r) = (\<exists>r\<in>set H. Info_Version r = v)"
  by (induction H) auto

lemma FindUpdateByVersion_Inr_D:
  "FindUpdateByVersion H v = Inr r \<Longrightarrow> r \<in> set H \<and> Info_Version r = v"
  by (induction H) (auto split: if_splits)

lemma FindUpdateByVersion_Inl:
  "\<forall>r\<in>set H. Info_Version r \<noteq> v \<Longrightarrow>
   FindUpdateByVersion H v =
     Inl (errors_New (''version '' @ fmt_d v @ '' not found in stack history''))"
  by (induction H) auto

lemma VersionExistsInHistory_iff:
  "VersionExistsInHistory S v = (\<exists>u\<in>set S. Summary_Version u = v)"
  by (induction S) auto

lemma FindUpdateByVersion_ConvertUpdates:
  "(\<exists>r. FindUpdateByVersion (ConvertUpdates T S) v = Inr r) = VersionExistsInHistory S v"
  by (induction S) (auto simp: ConvertUpdate_def)

lemma GetCheckpointForVersion_result_is_export:
  assumes "GetCheckpointForVersion X stack v w = (Inr deployment, w')"
  shows "last (new_calls w w') = Call_Export (Inr deployment)"
  using assms by (cases rule: GetCheckpointForVersion_cases) simp_all

section \<open>The test double, evaluated\<close>

lemma summary_sel [simp]: "Summary_Version (summary v) = v"
  by (simp add: summary_def)

lemma info_sel [simp]: "Info_Version (info v) = v"
  by (simp add: info_def ConvertUpdate_def)

lemma ConvertUpdates_summary [simp]: "ConvertUpdate mock_time (summary v) = info v"
  by (simp add: info_def)

lemma checkpoint_sel [simp]:
  "Untyped_Deployment (checkpoint 1) = ''{\"v\":1}''"
  "Untyped_Deployment (checkpoint 2) = ''{\"v\":2}''"
  "Untyped_Deployment invalid_checkpoint = ''{invalid}''"
  by (simp_all add: checkpoint_def invalid_checkpoint_def)

lemma checkpoint_neq [simp]: "checkpoint 2 \<noteq> checkpoint 1"
  by (simp add: checkpoint_def)

lemma mock_Unmarshal_simps [simp]:
  "mock_Unmarshal ''{\"v\":1}'' = None"
  "mock_Unmarshal ''{\"v\":2}'' = None"
  "mock_Unmarshal ''{invalid}'' = Some (errors_New ''invalid character'')"
  by (simp_all add: mock_Unmarshal_def)

lemma fmt_d_simps [simp]:
  "fmt_d 1 = ''1''" "fmt_d 2 = ''2''" "fmt_d 3 = ''3''" "fmt_d 5 = ''5''" "fmt_d 99 = ''99''"
  by (simp_all add: fmt_d_def nat_digits.simps)

lemmas mock_defs =
  operator_SelectStack_def stack_Export_def stack_Import_def stack_History_def
  stack_Preview_def stack_Refresh_def stack_Up_def DefaultOperator_def DefaultStackOperator_def
  RealRollbackStack_def mock_externals_def mock_Stack_def mock_Export_def mock_Import_def
  mock_History_def mock_SelectStackLocalSource_def mock_world_def ValidateDeployment_def
  mock_opts_def Fprintf_def mock_backend0_def

lemmas history_defs =
  GetStackHistory_def GetStackHistoryWithSelector_def selector_SelectStack_def
  Stack_call_History_def DefaultSelector_def DefaultStackSelector_def RealStack_def
  mock_cmd_externals_def mock_externals_def mock_Stack_def mock_History_def
  mock_SelectStackLocalSource_def mock_world_def mock_backend0_def mock_flags_def

section \<open>C8: lookup by version\<close>

text \<open>
  C8.  For every history and every integer \<open>v\<close>, \<^verbatim>\<open>FindUpdateByVersion\<close> returns a
  record if and only if some record of the history has version \<open>v\<close>; the record it
  returns is one of the history with that version; when there is none it fails with the
  error "version v not found in stack history".  \<^verbatim>\<open>VersionExistsInHistory\<close> is true
  if and only if some record of the history has version \<open>v\<close>, and it is true of a
  history as the SDK gives it if and only if \<^verbatim>\<open>FindUpdateByVersion\<close> returns a record
  on that history converted by \<^verbatim>\<open>ConvertUpdates\<close>.
\<close>

theorem lookup_by_version_iff:
  "((\<exists>r. FindUpdateByVersion H v = Inr r) = (\<exists>r\<in>set H. Info_Version r = v))
   \<and> (\<forall>r. FindUpdateByVersion H v = Inr r \<longrightarrow> r \<in> set H \<and> Info_Version r = v)
   \<and> ((\<forall>r\<in>set H. Info_Version r \<noteq> v) \<longrightarrow>
        FindUpdateByVersion H v =
          Inl (errors_New (''version '' @ fmt_d v @ '' not found in stack history'')))
   \<and> VersionExistsInHistory S v = (\<exists>u\<in>set S. Summary_Version u = v)
   \<and> (\<exists>r. FindUpdateByVersion (ConvertUpdates T S) v = Inr r) = VersionExistsInHistory S v"
  using FindUpdateByVersion_Inr_iff [of H v] FindUpdateByVersion_Inr_D [of H v]
    FindUpdateByVersion_Inl [of H v] VersionExistsInHistory_iff [of S v]
    FindUpdateByVersion_ConvertUpdates [of T S v]
  by blast

theorem lookup_by_version_iff_witness:
  "FindUpdateByVersion [info 5, info 2, info 1] 2 = Inr (info 2)
   \<and> FindUpdateByVersion [info 5, info 2, info 1] 3 =
       Inl (errors_New ''version 3 not found in stack history'')
   \<and> VersionExistsInHistory [summary 5, summary 2, summary 1] 2
   \<and> \<not> VersionExistsInHistory [summary 5, summary 2, summary 1] 3"
proof -
  have "FindUpdateByVersion [info 5, info 2, info 1] 2 = Inr (info 2)
        \<and> VersionExistsInHistory [summary 5, summary 2, summary 1] 2"
    using lookup_by_version_iff
            [of "[info 5, info 2, info 1]" 2 "[summary 5, summary 2, summary 1]" mock_time]
    by simp
  moreover
  have "FindUpdateByVersion [info 5, info 2, info 1] 3 =
          Inl (errors_New ''version 3 not found in stack history'')
        \<and> \<not> VersionExistsInHistory [summary 5, summary 2, summary 1] 3"
    using lookup_by_version_iff
            [of "[info 5, info 2, info 1]" 3 "[summary 5, summary 2, summary 1]" mock_time]
    by simp
  ultimately show ?thesis by blast
qed

section \<open>C9: the latest version\<close>

text \<open>
  C9.  For a history that is not empty, \<^verbatim>\<open>GetLatestVersionFromHistory\<close> returns the
  version of its first record, \<open>H ! 0\<close>; for the empty history it fails with the error
  "no deployment history found for stack name".  \<^verbatim>\<open>GetLatestVersionWithSelector\<close>
  and \<^verbatim>\<open>GetLatestVersion\<close> return that result for the history they have fetched.
\<close>

theorem latest_version_is_first:
  "(H \<noteq> [] \<longrightarrow> GetLatestVersionFromHistory H name = Inr (Info_Version (H ! 0)))
   \<and> (H = [] \<longrightarrow> GetLatestVersionFromHistory H name =
         Inl (errors_New (''no deployment history found for stack '' @ name)))
   \<and> (GetStackHistoryWithSelector T path name selector w = (Inr H, w') \<longrightarrow>
        GetLatestVersionWithSelector T path name selector w =
          (if H = [] then Inl (errors_New (''no deployment history found for stack '' @ name))
           else Inr (Info_Version (H ! 0)), w'))
   \<and> (GetStackHistory X T path name w = (Inr H, w') \<longrightarrow>
        GetLatestVersion X T path name w =
          (if H = [] then Inl (errors_New (''no deployment history found for stack '' @ name))
           else Inr (Info_Version (H ! 0)), w'))"
  by (simp add: GetLatestVersionFromHistory_def GetLatestVersionWithSelector_def
        GetLatestVersion_def GetStackHistory_def)

theorem latest_version_is_first_witness:
  "GetLatestVersionFromHistory [info 5, info 2, info 1] ''dev'' = Inr 5
   \<and> GetLatestVersionFromHistory ([] :: nat UpdateInfo list) ''dev'' =
       Inl (errors_New ''no deployment history found for stack dev'')
   \<and> fst (GetLatestVersionWithSelector mock_time ''/path/to/project'' ''dev''
             (DefaultSelector mock_externals) (mock_world mock_backend0)) = Inr 2"
proof -
  let ?fetch = "GetStackHistoryWithSelector mock_time ''/path/to/project'' ''dev''
                  (DefaultSelector mock_externals) (mock_world mock_backend0)"
  have "GetLatestVersionFromHistory [info 5, info 2, info 1] ''dev'' = Inr 5"
    using latest_version_is_first [of "[info 5, info 2, info 1]" "''dev''" mock_time
        "''/path/to/project''" "DefaultSelector mock_externals" "mock_world mock_backend0"
        "mock_world mock_backend0" mock_externals]
    by simp
  moreover
  have "GetLatestVersionFromHistory ([] :: nat UpdateInfo list) ''dev'' =
          Inl (errors_New ''no deployment history found for stack dev'')"
    using latest_version_is_first [of "[] :: nat UpdateInfo list" "''dev''" mock_time
        "''/path/to/project''" "DefaultSelector mock_externals" "mock_world mock_backend0"
        "mock_world mock_backend0" mock_externals]
    by simp
  moreover
  have fetched: "?fetch = (Inr [info 2, info 1], snd ?fetch)"
    by (simp add: history_defs)
  have "fst (GetLatestVersionWithSelector mock_time ''/path/to/project'' ''dev''
               (DefaultSelector mock_externals) (mock_world mock_backend0)) = Inr 2"
    using latest_version_is_first [of "[info 2, info 1]" "''dev''" mock_time
        "''/path/to/project''" "DefaultSelector mock_externals" "mock_world mock_backend0"
        "snd ?fetch" mock_externals] fetched
    by simp
  ultimately show ?thesis by blast
qed

section \<open>C2: the preview flow imports twice\<close>

text \<open>
  C2.  In a run of \<^verbatim>\<open>PreviewRollback\<close> whose first \<^verbatim>\<open>Import\<close> call, the one of the
  target checkpoint \<open>tgt\<close>, succeeds, the calls are exactly: select the stack, export the
  current state \<open>cur\<close>, fetch the history, export \<open>tgt\<close>, import \<open>tgt\<close>, preview,
  import \<open>cur\<close>.  So \<^verbatim>\<open>Import\<close> is called exactly twice, with the target checkpoint
  and then with the state exported at the start, whatever the outcome \<open>preview\<close> of the
  \<^verbatim>\<open>Preview\<close> call between them.
\<close>

theorem PreviewRollback_imports_twice:
  assumes run: "PreviewRollback X opts w = (res, w')"
    and first: "filter is_Import (new_calls w w') = Call_Import tgt None # rest"
  shows "\<exists>cur history preview restoreErr.
           new_calls w w' =
             [Call_SelectStack (StackName opts) (ProjectPath opts) None,
              Call_Export (Inr cur),
              Call_History 0 0 (Inr history),
              Call_Export (Inr tgt),
              Call_Import tgt None,
              Call_Preview [optpreview_Message (''Preview rollback to version ''
                              @ fmt_d (TargetVersion opts))] preview,
              Call_Import cur restoreErr]
           \<and> filter is_Import (new_calls w w') = [Call_Import tgt None, Call_Import cur restoreErr]"
  using run
proof (cases rule: PreviewRollback_cases)
  case (preview_failed cur history tgt' err restoreErr)
  with first show ?thesis by auto
next
  case (previewed cur history tgt' result restoreErr)
  with first show ?thesis by auto
qed (use first in simp_all)

theorem PreviewRollback_imports_twice_witness:
  "\<exists>cur restoreErr.
     filter is_Import
       (new_calls (mock_world (mock_backend0\<lparr>mock_preview := Inl (errors_New ''preview failed'')\<rparr>))
          (snd (PreviewRollback mock_externals (mock_opts 1)
                  (mock_world (mock_backend0\<lparr>mock_preview := Inl (errors_New ''preview failed'')\<rparr>)))))
       = [Call_Import (checkpoint 2) None, Call_Import cur restoreErr]"
proof -
  let ?w = "mock_world (mock_backend0\<lparr>mock_preview := Inl (errors_New ''preview failed'')\<rparr>)"
  let ?run = "PreviewRollback mock_externals (mock_opts 1) ?w"
  have "calls (snd ?run) =
     [Call_SelectStack ''test-stack'' ''/path/to/project'' None,
      Call_Export (Inr (checkpoint 2)),
      Call_History 0 0 (Inr [summary 2, summary 1]),
      Call_Export (Inr (checkpoint 2)),
      Call_Import (checkpoint 2) None,
      Call_Preview [optpreview_Message ''Preview rollback to version 1'']
        (Inl (errors_New ''preview failed'')),
      Call_Import (checkpoint 2) None]"
    by (simp add: PreviewRollback_def GetCheckpointForVersion_def mock_defs)
  then have first: "filter is_Import (new_calls ?w (snd ?run)) =
      Call_Import (checkpoint 2) None # [Call_Import (checkpoint 2) None]"
    by (simp add: new_calls_def mock_world_def)
  from PreviewRollback_imports_twice [OF prod.collapse [symmetric] first]
  show ?thesis by blast
qed

section \<open>C4: a failed restore after a successful preview\<close>

text \<open>
  C4.  When the last two calls of a run of \<^verbatim>\<open>PreviewRollback\<close> are a \<^verbatim>\<open>Preview\<close>
  that succeeds with \<open>result\<close> and the restoring \<^verbatim>\<open>Import\<close> that fails with \<open>rerr\<close>,
  the run returns no error but the successful outcome: \<^verbatim>\<open>Success\<close> is true and the
  resource changes are those of the preview (none when its summary is \<^verbatim>\<open>nil\<close>).  The
  failure of the restore is the line "Warning: failed to restore current state: rerr",
  the only text the run writes, and it goes to the output writer.
\<close>

theorem PreviewRollback_restore_failure_is_warning:
  assumes run: "PreviewRollback X opts w = (res, w')"
    and tail: "new_calls w w' = pre @ [Call_Preview po (Inr result), Call_Import cur (Some rerr)]"
  shows "res = Inr \<lparr>Success = True,
                    Message = ''Preview of rollback to version '' @ fmt_d (TargetVersion opts)
                                @ '' completed'',
                    ResourceChanges = (case Preview_ChangeSummary result of
                                         None \<Rightarrow> Map.empty | Some m \<Rightarrow> m),
                    Stdout = Preview_StdOut result,
                    Stderr = Preview_StdErr result\<rparr>
         \<and> written w' = (written w)(effective_output opts :=
               written w (effective_output opts)
                 @ ''Warning: failed to restore current state: '' @ Error rerr @ nl)"
proof -
  have l: "last (new_calls w w') = Call_Import cur (Some rerr)"
    and bl: "last (butlast (new_calls w w')) = Call_Preview po (Inr result)"
    using tail by (simp_all add: butlast_append)
  from run show ?thesis
  proof (cases rule: PreviewRollback_cases)
    case (previewed cur' history tgt result' restoreErr)
    with l bl show ?thesis
      by (auto simp: convertOpTypeChangeSummary_def split: option.splits)
  qed (use l bl in simp_all)
qed

theorem PreviewRollback_restore_failure_is_warning_witness:
  "fst (PreviewRollback mock_externals (mock_opts 1)
          (mock_world (mock_backend0\<lparr>mock_imports := [None, Some (errors_New ''restore failed'')]\<rparr>)))
     = Inr \<lparr>Success = True,
            Message = ''Preview of rollback to version 1 completed'',
            ResourceChanges = [''create'' \<mapsto> 1],
            Stdout = ''preview output'',
            Stderr = []\<rparr>
   \<and> written (snd (PreviewRollback mock_externals (mock_opts 1)
          (mock_world (mock_backend0\<lparr>mock_imports := [None, Some (errors_New ''restore failed'')]\<rparr>))))
       = (\<lambda>wr. [])(bytes_Buffer 0 :=
           ''Warning: failed to restore current state: restore failed'' @ nl)"
proof -
  let ?w = "mock_world (mock_backend0\<lparr>mock_imports := [None, Some (errors_New ''restore failed'')]\<rparr>)"
  let ?run = "PreviewRollback mock_externals (mock_opts 1) ?w"
  let ?result = "\<lparr>Preview_StdOut = ''preview output'', Preview_StdErr = [],
                   Preview_ChangeSummary = Some [''create'' \<mapsto> 1]\<rparr>"
  have "calls (snd ?run) =
     [Call_SelectStack ''test-stack'' ''/path/to/project'' None,
      Call_Export (Inr (checkpoint 2)),
      Call_History 0 0 (Inr [summary 2, summary 1]),
      Call_Export (Inr (checkpoint 2)),
      Call_Import (checkpoint 2) None]
     @ [Call_Preview [optpreview_Message ''Preview rollback to version 1''] (Inr ?result),
        Call_Import (checkpoint 2) (Some (errors_New ''restore failed''))]"
    by (simp add: PreviewRollback_def GetCheckpointForVersion_def mock_defs)
  then have tail: "new_calls ?w (snd ?run) =
     [Call_SelectStack ''test-stack'' ''/path/to/project'' None,
      Call_Export (Inr (checkpoint 2)),
      Call_History 0 0 (Inr [summary 2, summary 1]),
      Call_Export (Inr (checkpoint 2)),
      Call_Import (checkpoint 2) None]
     @ [Call_Preview [optpreview_Message ''Preview rollback to version 1''] (Inr ?result),
        Call_Import (checkpoint 2) (Some (errors_New ''restore failed''))]"
    by (simp add: new_calls_def mock_world_def)
  from PreviewRollback_restore_failure_is_warning [OF prod.collapse [symmetric] tail]
  show ?thesis
    by (simp add: effective_output_def mock_opts_def mock_world_def)
qed

section \<open>C5: a failed preview\<close>

text \<open>
  C5.  When the \<^verbatim>\<open>Preview\<close> call of a run of \<^verbatim>\<open>PreviewRollback\<close> fails with \<open>err\<close>,
  the next and last call of the run is the \<^verbatim>\<open>Import\<close> of the state \<open>cur\<close> exported at
  the start, and the run returns the error "preview failed: err" that wraps \<open>err\<close>,
  whatever the outcome \<open>restoreErr\<close> of that \<^verbatim>\<open>Import\<close>.
\<close>

theorem PreviewRollback_preview_error_returned:
  assumes run: "PreviewRollback X opts w = (res, w')"
    and failed: "Call_Preview po (Inl err) \<in> set (new_calls w w')"
  shows "res = Inl (fmt_Errorf ''preview failed: '' err)
         \<and> (\<exists>cur history tgt restoreErr.
               new_calls w w' =
                 [Call_SelectStack (StackName opts) (ProjectPath opts) None,
                  Call_Export (Inr cur),
                  Call_History 0 0 (Inr history),
                  Call_Export (Inr tgt),
                  Call_Import tgt None,
                  Call_Preview po (Inl err),
                  Call_Import cur restoreErr])"
  using run
proof (cases rule: PreviewRollback_cases)
  case (preview_failed cur history tgt err' restoreErr)
  with failed show ?thesis by auto
qed (use failed in simp_all)

theorem PreviewRollback_preview_error_returned_witness:
  "fst (PreviewRollback mock_externals (mock_opts 1)
          (mock_world (mock_backend0\<lparr>mock_preview := Inl (errors_New ''boom''),
                                      mock_imports := [None, Some (errors_New ''restore failed'')]\<rparr>)))
     = Inl (fmt_Errorf ''preview failed: '' (errors_New ''boom''))
   \<and> fst (PreviewRollback mock_externals (mock_opts 1)
          (mock_world (mock_backend0\<lparr>mock_preview := Inl (errors_New ''boom'')\<rparr>)))
     = Inl (fmt_Errorf ''preview failed: '' (errors_New ''boom''))"
proof -
  let ?po = "[optpreview_Message ''Preview rollback to version 1'']"
  let ?w1 = "mock_world (mock_backend0\<lparr>mock_preview := Inl (errors_New ''boom''),
                                      mock_imports := [None, Some (errors_New ''restore failed'')]\<rparr>)"
  let ?run1 = "PreviewRollback mock_externals (mock_opts 1) ?w1"
  let ?w2 = "mock_world (mock_backend0\<lparr>mock_preview := Inl (errors_New ''boom'')\<rparr>)"
  let ?run2 = "PreviewRollback mock_externals (mock_opts 1) ?w2"
  have "Call_Preview ?po (Inl (errors_New ''boom'')) \<in> set (calls (snd ?run1))"
    by (simp add: PreviewRollback_def GetCheckpointForVersion_def mock_defs)
  then have failed1: "Call_Preview ?po (Inl (errors_New ''boom'')) \<in> set (new_calls ?w1 (snd ?run1))"
    by (simp add: new_calls_def mock_world_def)
  have "Call_Preview ?po (Inl (errors_New ''boom'')) \<in> set (calls (snd ?run2))"
    by (simp add: PreviewRollback_def GetCheckpointForVersion_def mock_defs)
  then have failed2: "Call_Preview ?po (Inl (errors_New ''boom'')) \<in> set (new_calls ?w2 (snd ?run2))"
    by (simp add: new_calls_def mock_world_def)
  from PreviewRollback_preview_error_returned [OF prod.collapse [symmetric] failed1]
    PreviewRollback_preview_error_returned [OF prod.collapse [symmetric] failed2]
  show ?thesis by blast
qed

section \<open>C6: failures before the import of the target checkpoint\<close>

text \<open>
  C6.  Each failure of \<^verbatim>\<open>PreviewRollback\<close> that comes before the import of the target
  checkpoint ends the run at the failing call: that call is the last one, no call of the
  run is mutating (no \<^verbatim>\<open>Import\<close>), nothing is written, and the result is the wrapped
  error.  The failures are: the stack selection fails; the export of the current state
  (the only export of the run) fails; the history fetch fails; the history does not hold
  the target version; the export made for the checkpoint (the second of the run) fails;
  the deployment it returns does not parse.
\<close>

theorem PreviewRollback_failure_before_import:
  assumes run: "PreviewRollback X opts w = (res, w')"
  shows
    "(\<forall>err. Call_SelectStack (StackName opts) (ProjectPath opts) (Some err) \<in> set (new_calls w w')
        \<longrightarrow> aborted_at w w' (Call_SelectStack (StackName opts) (ProjectPath opts) (Some err))
             \<and> res = Inl (fmt_Errorf ''failed to select stack: '' err))
     \<and> (\<forall>err. filter is_Export (new_calls w w') = [Call_Export (Inl err)]
        \<longrightarrow> aborted_at w w' (Call_Export (Inl err))
             \<and> res = Inl (fmt_Errorf ''failed to export current state: '' err))
     \<and> (\<forall>err. Call_History 0 0 (Inl err) \<in> set (new_calls w w')
        \<longrightarrow> aborted_at w w' (Call_History 0 0 (Inl err))
             \<and> res = Inl (checkpoint_error (TargetVersion opts)
                             (fmt_Errorf ''failed to get history: '' err)))
     \<and> (\<forall>history. Call_History 0 0 (Inr history) \<in> set (new_calls w w')
                  \<and> \<not> VersionExistsInHistory history (TargetVersion opts)
        \<longrightarrow> aborted_at w w' (Call_History 0 0 (Inr history))
             \<and> res = Inl (checkpoint_error (TargetVersion opts)
                             (errors_New (''version '' @ fmt_d (TargetVersion opts)
                                            @ '' not found in history''))))
     \<and> (\<forall>cur err. filter is_Export (new_calls w w') = [Call_Export (Inr cur), Call_Export (Inl err)]
        \<longrightarrow> aborted_at w w' (Call_Export (Inl err))
             \<and> res = Inl (checkpoint_error (TargetVersion opts)
                             (fmt_Errorf ''failed to export deployment: '' err)))
     \<and> (\<forall>cur deployment perr.
            filter is_Export (new_calls w w') = [Call_Export (Inr cur), Call_Export (Inr deployment)]
            \<and> ValidateDeployment X deployment = Some perr
        \<longrightarrow> aborted_at w w' (Call_Export (Inr deployment))
             \<and> res = Inl (checkpoint_error (TargetVersion opts)
                             (fmt_Errorf ''failed to parse deployment: '' perr)))"
  using run
  by (cases rule: PreviewRollback_cases)
     (auto simp: aborted_at_def checkpoint_error_def)

lemma PreviewRollback_mock_select_failed:
  "calls (snd (PreviewRollback mock_externals (mock_opts 1)
      (mock_world (mock_backend0\<lparr>mock_select := Some (errors_New ''stack not found'')\<rparr>)))) =
   [Call_SelectStack ''test-stack'' ''/path/to/project'' (Some (errors_New ''stack not found''))]"
  by (simp add: PreviewRollback_def GetCheckpointForVersion_def mock_defs)

lemma PreviewRollback_mock_export_failed:
  "calls (snd (PreviewRollback mock_externals (mock_opts 1)
      (mock_world (mock_backend0\<lparr>mock_exports := [Some (errors_New ''export failed'')]\<rparr>)))) =
   [Call_SelectStack ''test-stack'' ''/path/to/project'' None,
    Call_Export (Inl (errors_New ''export failed''))]"
  by (simp add: PreviewRollback_def GetCheckpointForVersion_def mock_defs)

lemma PreviewRollback_mock_history_failed:
  "calls (snd (PreviewRollback mock_externals (mock_opts 1)
      (mock_world (mock_backend0\<lparr>mock_history := Some (errors_New ''history failed'')\<rparr>)))) =
   [Call_SelectStack ''test-stack'' ''/path/to/project'' None,
    Call_Export (Inr (checkpoint 2)),
    Call_History 0 0 (Inl (errors_New ''history failed''))]"
  by (simp add: PreviewRollback_def GetCheckpointForVersion_def mock_defs)

lemma PreviewRollback_mock_not_found:
  "calls (snd (PreviewRollback mock_externals (mock_opts 99)
      (mock_world (mock_backend0\<lparr>mock_recorded := [(summary 1, checkpoint 1)]\<rparr>)))) =
   [Call_SelectStack ''test-stack'' ''/path/to/project'' None,
    Call_Export (Inr (checkpoint 2)),
    Call_History 0 0 (Inr [summary 1])]"
  by (simp add: PreviewRollback_def GetCheckpointForVersion_def mock_defs)

lemma PreviewRollback_mock_checkpoint_export_failed:
  "calls (snd (PreviewRollback mock_externals (mock_opts 1)
      (mock_world (mock_backend0\<lparr>mock_exports := [None, Some (errors_New ''export failed'')]\<rparr>)))) =
   [Call_SelectStack ''test-stack'' ''/path/to/project'' None,
    Call_Export (Inr (checkpoint 2)),
    Call_History 0 0 (Inr [summary 2, summary 1]),
    Call_Export (Inl (errors_New ''export failed''))]"
  by (simp add: PreviewRollback_def GetCheckpointForVersion_def mock_defs)

lemma PreviewRollback_mock_parse_failed:
  "calls (snd (PreviewRollback mock_externals (mock_opts 1)
      (mock_world (mock_backend0\<lparr>mock_committed := invalid_checkpoint\<rparr>)))) =
   [Call_SelectStack ''test-stack'' ''/path/to/project'' None,
    Call_Export (Inr invalid_checkpoint),
    Call_History 0 0 (Inr [summary 2, summary 1]),
    Call_Export (Inr invalid_checkpoint)]"
  by (simp add: PreviewRollback_def GetCheckpointForVersion_def mock_defs)

theorem PreviewRollback_failure_before_import_witness:
  "fst (PreviewRollback mock_externals (mock_opts 1)
          (mock_world (mock_backend0\<lparr>mock_select := Some (errors_New ''stack not found'')\<rparr>)))
     = Inl (fmt_Errorf ''failed to select stack: '' (errors_New ''stack not found''))
   \<and> fst (PreviewRollback mock_externals (mock_opts 1)
          (mock_world (mock_backend0\<lparr>mock_exports := [Some (errors_New ''export failed'')]\<rparr>)))
     = Inl (fmt_Errorf ''failed to export current state: '' (errors_New ''export failed''))
   \<and> fst (PreviewRollback mock_externals (mock_opts 1)
          (mock_world (mock_backend0\<lparr>mock_history := Some (errors_New ''history failed'')\<rparr>)))
     = Inl (fmt_Errorf ''failed to get checkpoint for version 1: ''
              (fmt_Errorf ''failed to get history: '' (errors_New ''history failed'')))
   \<and> fst (PreviewRollback mock_externals (mock_opts 99)
          (mock_world (mock_backend0\<lparr>mock_recorded := [(summary 1, checkpoint 1)]\<rparr>)))
     = Inl (fmt_Errorf ''failed to get checkpoint for version 99: ''
              (errors_New ''version 99 not found in history''))
   \<and> filter is_Import
        (new_calls (mock_world (mock_backend0\<lparr>mock_recorded := [(summary 1, checkpoint 1)]\<rparr>))
           (snd (PreviewRollback mock_externals (mock_opts 99)
                   (mock_world (mock_backend0\<lparr>mock_recorded := [(summary 1, checkpoint 1)]\<rparr>)))))
       = []
   \<and> fst (PreviewRollback mock_externals (mock_opts 1)
          (mock_world (mock_backend0\<lparr>mock_exports := [None, Some (errors_New ''export failed'')]\<rparr>)))
     = Inl (fmt_Errorf ''failed to get checkpoint for version 1: ''
              (fmt_Errorf ''failed to export deployment: '' (errors_New ''export failed'')))
   \<and> fst (PreviewRollback mock_externals (mock_opts 1)
          (mock_world (mock_backend0\<lparr>mock_committed := invalid_checkpoint\<rparr>)))
     = Inl (fmt_Errorf ''failed to get checkpoint for version 1: ''
              (fmt_Errorf ''failed to parse deployment: '' (errors_New ''invalid character'')))"
proof -
  let ?w1 = "mock_world (mock_backend0\<lparr>mock_select := Some (errors_New ''stack not found'')\<rparr>)"
  let ?w2 = "mock_world (mock_backend0\<lparr>mock_exports := [Some (errors_New ''export failed'')]\<rparr>)"
  let ?w3 = "mock_world (mock_backend0\<lparr>mock_history := Some (errors_New ''history failed'')\<rparr>)"
  let ?w4 = "mock_world (mock_backend0\<lparr>mock_recorded := [(summary 1, checkpoint 1)]\<rparr>)"
  let ?w5 = "mock_world (mock_backend0\<lparr>mock_exports := [None, Some (errors_New ''export failed'')]\<rparr>)"
  let ?w6 = "mock_world (mock_backend0\<lparr>mock_committed := invalid_checkpoint\<rparr>)"
  have n1: "new_calls ?w1 (snd (PreviewRollback mock_externals (mock_opts 1) ?w1)) =
      [Call_SelectStack ''test-stack'' ''/path/to/project'' (Some (errors_New ''stack not found''))]"
    by (simp add: new_calls_def PreviewRollback_mock_select_failed) (simp add: mock_world_def)
  have n2: "new_calls ?w2 (snd (PreviewRollback mock_externals (mock_opts 1) ?w2)) =
      [Call_SelectStack ''test-stack'' ''/path/to/project'' None,
       Call_Export (Inl (errors_New ''export failed''))]"
    by (simp add: new_calls_def PreviewRollback_mock_export_failed) (simp add: mock_world_def)
  have n3: "new_calls ?w3 (snd (PreviewRollback mock_externals (mock_opts 1) ?w3)) =
      [Call_SelectStack ''test-stack'' ''/path/to/project'' None,
       Call_Export (Inr (checkpoint 2)),
       Call_History 0 0 (Inl (errors_New ''history failed''))]"
    by (simp add: new_calls_def PreviewRollback_mock_history_failed) (simp add: mock_world_def)
  have n4: "new_calls ?w4 (snd (PreviewRollback mock_externals (mock_opts 99) ?w4)) =
      [Call_SelectStack ''test-stack'' ''/path/to/project'' None,
       Call_Export (Inr (checkpoint 2)),
       Call_History 0 0 (Inr [summary 1])]"
    by (simp add: new_calls_def PreviewRollback_mock_not_found) (simp add: mock_world_def)
  have n5: "new_calls ?w5 (snd (PreviewRollback mock_externals (mock_opts 1) ?w5)) =
      [Call_SelectStack ''test-stack'' ''/path/to/project'' None,
       Call_Export (Inr (checkpoint 2)),
       Call_History 0 0 (Inr [summary 2, summary 1]),
       Call_Export (Inl (errors_New ''export failed''))]"
    by (simp add: new_calls_def PreviewRollback_mock_checkpoint_export_failed)
       (simp add: mock_world_def)
  have n6: "new_calls ?w6 (snd (PreviewRollback mock_externals (mock_opts 1) ?w6)) =
      [Call_SelectStack ''test-stack'' ''/path/to/project'' None,
       Call_Export (Inr invalid_checkpoint),
       Call_History 0 0 (Inr [summary 2, summary 1]),
       Call_Export (Inr invalid_checkpoint)]"
    by (simp add: new_calls_def PreviewRollback_mock_parse_failed) (simp add: mock_world_def)
  have o1: "StackName (mock_opts v) = ''test-stack''"
    and o2: "ProjectPath (mock_opts v) = ''/path/to/project''"
    and o3: "TargetVersion (mock_opts v) = v" for v
    by (simp_all add: mock_opts_def)
  have invalid: "ValidateDeployment mock_externals invalid_checkpoint
                   = Some (errors_New ''invalid character'')"
    by (simp add: ValidateDeployment_def mock_externals_def)
  have c1: "fst (PreviewRollback mock_externals (mock_opts 1) ?w1)
     = Inl (fmt_Errorf ''failed to select stack: '' (errors_New ''stack not found''))"
    using PreviewRollback_failure_before_import
        [where X = mock_externals and opts = "mock_opts 1" and w = "?w1", OF prod.collapse [symmetric]]
    by (simp add: n1 o1 o2)
  have c2: "fst (PreviewRollback mock_externals (mock_opts 1) ?w2)
     = Inl (fmt_Errorf ''failed to export current state: '' (errors_New ''export failed''))"
    using PreviewRollback_failure_before_import
        [where X = mock_externals and opts = "mock_opts 1" and w = "?w2", OF prod.collapse [symmetric]]
    by (simp add: n2 o1 o2)
  have c3: "fst (PreviewRollback mock_externals (mock_opts 1) ?w3)
     = Inl (fmt_Errorf ''failed to get checkpoint for version 1: ''
              (fmt_Errorf ''failed to get history: '' (errors_New ''history failed'')))"
    using PreviewRollback_failure_before_import
        [where X = mock_externals and opts = "mock_opts 1" and w = "?w3", OF prod.collapse [symmetric]]
    by (simp add: n3 o1 o2 o3 checkpoint_error_def)
  have c4: "fst (PreviewRollback mock_externals (mock_opts 99) ?w4)
     = Inl (fmt_Errorf ''failed to get checkpoint for version 99: ''
              (errors_New ''version 99 not found in history''))
       \<and> filter is_Import (new_calls ?w4 (snd (PreviewRollback mock_externals (mock_opts 99) ?w4)))
           = []"
    using PreviewRollback_failure_before_import
        [where X = mock_externals and opts = "mock_opts 99" and w = "?w4", OF prod.collapse [symmetric]]
    by (simp add: n4 o1 o2 o3 checkpoint_error_def)
  have c5: "fst (PreviewRollback mock_externals (mock_opts 1) ?w5)
     = Inl (fmt_Errorf ''failed to get checkpoint for version 1: ''
              (fmt_Errorf ''failed to export deployment: '' (errors_New ''export failed'')))"
    using PreviewRollback_failure_before_import
        [where X = mock_externals and opts = "mock_opts 1" and w = "?w5", OF prod.collapse [symmetric]]
    by (simp add: n5 o1 o2 o3 checkpoint_error_def)
  have c6: "fst (PreviewRollback mock_externals (mock_opts 1) ?w6)
     = Inl (fmt_Errorf ''failed to get checkpoint for version 1: ''
              (fmt_Errorf ''failed to parse deployment: '' (errors_New ''invalid character'')))"
    using PreviewRollback_failure_before_import
        [where X = mock_externals and opts = "mock_opts 1" and w = "?w6", OF prod.collapse [symmetric]]
    by (simp add: n6 o1 o2 o3 checkpoint_error_def invalid)
  from c1 c2 c3 c4 c5 c6 show ?thesis by blast
qed

section \<open>C10: retrieving a checkpoint only reads\<close>

text \<open>
  C10.  Every call a run of \<^verbatim>\<open>GetCheckpointForVersion\<close> makes on the stack is
  \<^verbatim>\<open>History(0, 0)\<close> or \<^verbatim>\<open>Export\<close>: none is \<^verbatim>\<open>Import\<close>, \<^verbatim>\<open>Refresh\<close> or
  \<^verbatim>\<open>Up\<close>, whether the run succeeds or fails, and it writes nothing.  So when the
  \<^verbatim>\<open>History\<close> and \<^verbatim>\<open>Export\<close> of the stack leave the backend as it is, the backend
  is the same after the run, also when the version is found.
\<close>

theorem GetCheckpointForVersion_only_reads:
  assumes run: "GetCheckpointForVersion X stack v w = (res, w')"
  shows "(\<forall>c\<in>set (new_calls w w').
            \<not> mutating c \<and> ((\<exists>r. c = Call_History 0 0 r) \<or> (\<exists>r. c = Call_Export r)))
         \<and> written w' = written w
         \<and> (snd (History stack 0 0 (backend w)) = backend w
              \<and> snd (Export stack (backend w)) = backend w
             \<longrightarrow> backend w' = backend w)"
proof -
  have "\<forall>c\<in>set (new_calls w w').
            \<not> mutating c \<and> ((\<exists>r. c = Call_History 0 0 r) \<or> (\<exists>r. c = Call_Export r))"
    using run by (cases rule: GetCheckpointForVersion_cases) simp_all
  moreover have "written w' = written w"
    using run by (rule GetCheckpointForVersion_written)
  moreover have "backend w' = backend w"
    if "snd (History stack 0 0 (backend w)) = backend w"
      and "snd (Export stack (backend w)) = backend w"
    using GetCheckpointForVersion_backend [OF run that] .
  ultimately show ?thesis by blast
qed

theorem GetCheckpointForVersion_only_reads_witness:
  "fst (GetCheckpointForVersion mock_externals (RealRollbackStack mock_Stack) 1
          (mock_world mock_backend0)) = Inr (checkpoint 2)
   \<and> backend (snd (GetCheckpointForVersion mock_externals (RealRollbackStack mock_Stack) 1
                     (mock_world mock_backend0))) = mock_backend0
   \<and> filter mutating
        (new_calls (mock_world mock_backend0)
           (snd (GetCheckpointForVersion mock_externals (RealRollbackStack mock_Stack) 1
                   (mock_world mock_backend0))))
       = []"
proof -
  let ?w = "mock_world mock_backend0"
  let ?stack = "RealRollbackStack mock_Stack"
  let ?run = "GetCheckpointForVersion mock_externals ?stack 1 ?w"
  have found: "fst ?run = Inr (checkpoint 2)"
    by (simp add: GetCheckpointForVersion_def mock_defs)
  have history: "snd (History ?stack 0 0 (backend ?w)) = backend ?w"
    by (simp add: RealRollbackStack_def mock_Stack_def mock_History_def mock_world_def
          mock_backend0_def)
  have export: "snd (Export ?stack (backend ?w)) = backend ?w"
    by (simp add: RealRollbackStack_def mock_Stack_def mock_Export_def mock_world_def
          mock_backend0_def)
  have "backend ?w = mock_backend0"
    by (simp add: mock_world_def)
  with GetCheckpointForVersion_only_reads
         [where X = mock_externals and stack = ?stack and v = 1 and w = ?w,
          OF prod.collapse [symmetric]]
       found history export
  show ?thesis by (simp add: filter_empty_conv)
qed

section \<open>C1: which snapshot is retrieved\<close>

text \<open>
  C1.  \<^verbatim>\<open>GetCheckpointForVersion\<close> is documented to retrieve the state checkpoint for a
  specific version; the deployment it returns is, on every stack, the one its last call
  \<^verbatim>\<open>stack.Export\<close> gives (\<open>GetCheckpointForVersion_result_is_export\<close>), the stack's
  current state.  On the test double, which has stored the checkpoint
  \<^verbatim>\<open>{"v":1}\<close> for version 1 and whose committed state is the checkpoint \<^verbatim>\<open>{"v":2}\<close>
  of version 2, the retrieval for version 1 returns the checkpoint of version 2.
\<close>

theorem GetCheckpointForVersion_returns_current_state:
  "stored_checkpoint mock_backend0 1 = Some (checkpoint 1)
   \<and> mock_committed mock_backend0 = checkpoint 2
   \<and> fst (GetCheckpointForVersion mock_externals (RealRollbackStack mock_Stack) 1
            (mock_world mock_backend0)) = Inr (checkpoint 2)
   \<and> checkpoint 2 \<noteq> checkpoint 1"
  by (simp add: GetCheckpointForVersion_def mock_defs stored_checkpoint_def)

section \<open>C3: the execute flow after the import\<close>

text \<open>
  C3, as amended.  In a run of \<^verbatim>\<open>ExecuteRollback\<close> in which the import of the target
  checkpoint \<open>tgt\<close> succeeds, that import is the only \<^verbatim>\<open>Import\<close> call: there is no
  compensating restore.  When \<^verbatim>\<open>Refresh\<close> fails with \<open>err\<close>, it is the last call of
  the run and the only \<^verbatim>\<open>Refresh\<close>, \<^verbatim>\<open>Up\<close> is not called, and the result is the
  error "refresh failed: err" that wraps \<open>err\<close>.  When \<^verbatim>\<open>Up\<close> fails with \<open>err\<close>, it
  is the last call of the run and the only \<^verbatim>\<open>Up\<close>, after one \<^verbatim>\<open>Refresh\<close>, and the
  result is the error "rollback failed: err" that wraps \<open>err\<close>.  All the run writes are
  its progress lines, to the output writer: the error is an ordinary wrapped error, and
  nothing says that an operator has to intervene.
\<close>

theorem ExecuteRollback_no_compensation:
  assumes run: "ExecuteRollback X opts w = (res, w')"
    and imported: "Call_Import tgt None \<in> set (new_calls w w')"
  shows "filter is_Import (new_calls w w') = [Call_Import tgt None]
         \<and> (\<forall>ro err. Call_Refresh ro (Inl err) \<in> set (new_calls w w') \<longrightarrow>
               last (new_calls w w') = Call_Refresh ro (Inl err)
               \<and> filter is_Refresh (new_calls w w') = [Call_Refresh ro (Inl err)]
               \<and> filter is_Up (new_calls w w') = []
               \<and> res = Inl (fmt_Errorf ''refresh failed: '' err)
               \<and> written w' = (written w)(effective_output opts :=
                    written w (effective_output opts)
                      @ ''Refreshing stack to reconcile with target state...'' @ nl))
         \<and> (\<forall>uo err. Call_Up uo (Inl err) \<in> set (new_calls w w') \<longrightarrow>
               last (new_calls w w') = Call_Up uo (Inl err)
               \<and> length (filter is_Refresh (new_calls w w')) = 1
               \<and> filter is_Up (new_calls w w') = [Call_Up uo (Inl err)]
               \<and> res = Inl (fmt_Errorf ''rollback failed: '' err)
               \<and> written w' = (written w)(effective_output opts :=
                    written w (effective_output opts)
                      @ ''Refreshing stack to reconcile with target state...'' @ nl
                      @ ''Applying rollback changes...'' @ nl))"
  using run
proof (cases rule: ExecuteRollback_cases)
  case (checkpoint_failed gc err)
  with imported show ?thesis by auto
qed (use imported in auto)

lemma ExecuteRollback_mock_refresh_failed:
  "calls (snd (ExecuteRollback mock_externals (mock_opts 1)
      (mock_world (mock_backend0\<lparr>mock_refresh := Inl (errors_New ''boom'')\<rparr>)))) =
   [Call_SelectStack ''test-stack'' ''/path/to/project'' None,
    Call_History 0 0 (Inr [summary 2, summary 1]),
    Call_Export (Inr (checkpoint 2)),
    Call_Import (checkpoint 2) None,
    Call_Refresh [] (Inl (errors_New ''boom''))]"
  by (simp add: ExecuteRollback_def GetCheckpointForVersion_def mock_defs)

lemma ExecuteRollback_mock_up_failed:
  "calls (snd (ExecuteRollback mock_externals (mock_opts 1)
      (mock_world (mock_backend0\<lparr>mock_up := Inl (errors_New ''boom'')\<rparr>)))) =
   [Call_SelectStack ''test-stack'' ''/path/to/project'' None,
    Call_History 0 0 (Inr [summary 2, summary 1]),
    Call_Export (Inr (checkpoint 2)),
    Call_Import (checkpoint 2) None,
    Call_Refresh [] (Inr \<lparr>Refresh_StdOut = [], Refresh_StdErr = [], Refresh_Summary = summary 3\<rparr>),
    Call_Up [optup_Message ''Rollback to version 1''] (Inl (errors_New ''boom''))]"
  by (simp add: ExecuteRollback_def GetCheckpointForVersion_def mock_defs)

theorem ExecuteRollback_no_compensation_witness:
  "fst (ExecuteRollback mock_externals (mock_opts 1)
          (mock_world (mock_backend0\<lparr>mock_refresh := Inl (errors_New ''boom'')\<rparr>)))
     = Inl (fmt_Errorf ''refresh failed: '' (errors_New ''boom''))
   \<and> filter is_Import
        (new_calls (mock_world (mock_backend0\<lparr>mock_refresh := Inl (errors_New ''boom'')\<rparr>))
           (snd (ExecuteRollback mock_externals (mock_opts 1)
                   (mock_world (mock_backend0\<lparr>mock_refresh := Inl (errors_New ''boom'')\<rparr>)))))
       = [Call_Import (checkpoint 2) None]
   \<and> fst (ExecuteRollback mock_externals (mock_opts 1)
          (mock_world (mock_backend0\<lparr>mock_up := Inl (errors_New ''boom'')\<rparr>)))
     = Inl (fmt_Errorf ''rollback failed: '' (errors_New ''boom''))
   \<and> filter is_Import
        (new_calls (mock_world (mock_backend0\<lparr>mock_up := Inl (errors_New ''boom'')\<rparr>))
           (snd (ExecuteRollback mock_externals (mock_opts 1)
                   (mock_world (mock_backend0\<lparr>mock_up := Inl (errors_New ''boom'')\<rparr>)))))
       = [Call_Import (checkpoint 2) None]"
proof -
  let ?w1 = "mock_world (mock_backend0\<lparr>mock_refresh := Inl (errors_New ''boom'')\<rparr>)"
  let ?w2 = "mock_world (mock_backend0\<lparr>mock_up := Inl (errors_New ''boom'')\<rparr>)"
  have n1: "new_calls ?w1 (snd (ExecuteRollback mock_externals (mock_opts 1) ?w1)) =
     [Call_SelectStack ''test-stack'' ''/path/to/project'' None,
      Call_History 0 0 (Inr [summary 2, summary 1]),
      Call_Export (Inr (checkpoint 2)),
      Call_Import (checkpoint 2) None,
      Call_Refresh [] (Inl (errors_New ''boom''))]"
    by (simp add: new_calls_def ExecuteRollback_mock_refresh_failed) (simp add: mock_world_def)
  have n2: "new_calls ?w2 (snd (ExecuteRollback mock_externals (mock_opts 1) ?w2)) =
     [Call_SelectStack ''test-stack'' ''/path/to/project'' None,
      Call_History 0 0 (Inr [summary 2, summary 1]),
      Call_Export (Inr (checkpoint 2)),
      Call_Import (checkpoint 2) None,
      Call_Refresh [] (Inr \<lparr>Refresh_StdOut = [], Refresh_StdErr = [],
                             Refresh_Summary = summary 3\<rparr>),
      Call_Up [optup_Message ''Rollback to version 1''] (Inl (errors_New ''boom''))]"
    by (simp add: new_calls_def ExecuteRollback_mock_up_failed) (simp add: mock_world_def)
  have i1: "Call_Import (checkpoint 2) None
              \<in> set (new_calls ?w1 (snd (ExecuteRollback mock_externals (mock_opts 1) ?w1)))"
    by (simp add: n1)
  have i2: "Call_Import (checkpoint 2) None
              \<in> set (new_calls ?w2 (snd (ExecuteRollback mock_externals (mock_opts 1) ?w2)))"
    by (simp add: n2)
  have c1: "fst (ExecuteRollback mock_externals (mock_opts 1) ?w1)
              = Inl (fmt_Errorf ''refresh failed: '' (errors_New ''boom''))
            \<and> filter is_Import (new_calls ?w1 (snd (ExecuteRollback mock_externals (mock_opts 1) ?w1)))
                = [Call_Import (checkpoint 2) None]"
    using ExecuteRollback_no_compensation [OF prod.collapse [symmetric] i1]
    by (simp add: n1)
  have c2: "fst (ExecuteRollback mock_externals (mock_opts 1) ?w2)
              = Inl (fmt_Errorf ''rollback failed: '' (errors_New ''boom''))
            \<and> filter is_Import (new_calls ?w2 (snd (ExecuteRollback mock_externals (mock_opts 1) ?w2)))
                = [Call_Import (checkpoint 2) None]"
    using ExecuteRollback_no_compensation [OF prod.collapse [symmetric] i2]
    by (simp add: n2)
  from c1 c2 show ?thesis by blast
qed

text \<open>
  C3, as stated, at a concrete input.  \<^verbatim>\<open>Refresh\<close> fails with the error "boom" after
  the target checkpoint has been imported.  What the caller gets is the error whose text
  is "refresh failed: boom", and what the output writer has received is the progress
  line of the refresh; standard output has received nothing.  Neither text speaks of a
  manual intervention.
\<close>

theorem ExecuteRollback_failure_report_counterexample:
  "fst (ExecuteRollback mock_externals (mock_opts 1)
          (mock_world (mock_backend0\<lparr>mock_refresh := Inl (errors_New ''boom'')\<rparr>)))
     = Inl (fmt_Errorf ''refresh failed: '' (errors_New ''boom''))
   \<and> Call_Import (checkpoint 2) None
       \<in> set (calls (snd (ExecuteRollback mock_externals (mock_opts 1)
                  (mock_world (mock_backend0\<lparr>mock_refresh := Inl (errors_New ''boom'')\<rparr>)))))
   \<and> Error (fmt_Errorf ''refresh failed: '' (errors_New ''boom'')) = ''refresh failed: boom''
   \<and> written (snd (ExecuteRollback mock_externals (mock_opts 1)
                (mock_world (mock_backend0\<lparr>mock_refresh := Inl (errors_New ''boom'')\<rparr>))))
         (bytes_Buffer 0)
       = ''Refreshing stack to reconcile with target state...'' @ nl
   \<and> written (snd (ExecuteRollback mock_externals (mock_opts 1)
                (mock_world (mock_backend0\<lparr>mock_refresh := Inl (errors_New ''boom'')\<rparr>))))
         os_Stdout
       = []
   \<and> \<not> sublist ''manual'' ''refresh failed: boom''
   \<and> \<not> sublist ''intervention'' ''refresh failed: boom''
   \<and> \<not> sublist ''manual'' (''Refreshing stack to reconcile with target state...'' @ nl)
   \<and> \<not> sublist ''intervention'' (''Refreshing stack to reconcile with target state...'' @ nl)"
proof -
  let ?run = "ExecuteRollback mock_externals (mock_opts 1)
          (mock_world (mock_backend0\<lparr>mock_refresh := Inl (errors_New ''boom'')\<rparr>))"
  have "fst ?run = Inl (fmt_Errorf ''refresh failed: '' (errors_New ''boom''))"
    by (simp add: ExecuteRollback_def GetCheckpointForVersion_def mock_defs)
  moreover have "Call_Import (checkpoint 2) None \<in> set (calls (snd ?run))"
    by (simp add: ExecuteRollback_mock_refresh_failed)
  moreover have "written (snd ?run) (bytes_Buffer 0)
                   = ''Refreshing stack to reconcile with target state...'' @ nl"
    by (simp add: ExecuteRollback_def GetCheckpointForVersion_def mock_defs)
  moreover have "written (snd ?run) os_Stdout = []"
    by (simp add: ExecuteRollback_def GetCheckpointForVersion_def mock_defs)
  moreover have "\<not> sublist ''manual'' ''refresh failed: boom''"
    by (simp add: sublist_Cons_right)
  moreover have "\<not> sublist ''intervention'' ''refresh failed: boom''"
    by (simp add: sublist_Cons_right)
  moreover have "\<not> sublist ''manual'' (''Refreshing stack to reconcile with target state...'' @ nl)"
    by (simp add: sublist_Cons_right)
  moreover have
    "\<not> sublist ''intervention'' (''Refreshing stack to reconcile with target state...'' @ nl)"
    by (simp add: sublist_Cons_right)
  ultimately show ?thesis by simp
qed

section \<open>C7: the target version is the latest one\<close>

text \<open>
  C7.  \<^verbatim>\<open>runRollback\<close> resolves the stack name, fetches the history to look the target
  version up, and fetches it again for the latest version, the version of its first
  record.  When both fetches succeed, the first holds the target version and the latest
  version of the second is the target version, \<^verbatim>\<open>runRollback\<close> returns no error, writes
  the line "Version v is the current version. No rollback needed." to standard output
  and stops there, before \<^verbatim>\<open>ExecuteRollback\<close>: the calls of the run are the two stack
  selections and the two history fetches, none of them mutating.
\<close>

theorem runRollback_latest_is_noop:
  assumes name: "getStackName E F = Inr stack"
    and fetch1: "GetStackHistory (sdk E) (time_lib E) (projectPath F) stack w = (Inr H1, w1)"
    and fetch2: "GetStackHistory (sdk E) (time_lib E) (projectPath F) stack w1 = (Inr H2, w2)"
    and present: "\<exists>u\<in>set H1. Info_Version u = rollbackVersion F"
    and latest: "H2 \<noteq> [] \<and> Info_Version (H2 ! 0) = rollbackVersion F"
  shows "runRollback E F w =
           (None, Fprintf os_Stdout
                    (''Version '' @ fmt_d (rollbackVersion F)
                       @ '' is the current version. No rollback needed.'' @ nl) w2)
         \<and> (\<exists>history1 history2.
               new_calls w (snd (runRollback E F w)) =
                 [Call_SelectStack stack (projectPath F) None, Call_History 0 0 (Inr history1),
                  Call_SelectStack stack (projectPath F) None, Call_History 0 0 (Inr history2)])
         \<and> (\<forall>c\<in>set (new_calls w (snd (runRollback E F w))). \<not> mutating c)"
proof -
  from present obtain update where found: "FindUpdateByVersion H1 (rollbackVersion F) = Inr update"
    using FindUpdateByVersion_Inr_iff [of H1 "rollbackVersion F"] by blast
  from latest have newest: "GetLatestVersionFromHistory H2 stack = Inr (rollbackVersion F)"
    by (simp add: GetLatestVersionFromHistory_def)
  have lookup: "GetUpdateByVersion (sdk E) (time_lib E) (projectPath F) stack (rollbackVersion F) w
                  = (Inr update, w1)"
    using fetch1 found
    by (simp add: GetUpdateByVersion_def GetUpdateByVersionWithSelector_def GetStackHistory_def)
  have resolve: "GetLatestVersion (sdk E) (time_lib E) (projectPath F) stack w1
                   = (Inr (rollbackVersion F), w2)"
    using fetch2 newest
    by (simp add: GetLatestVersion_def GetLatestVersionWithSelector_def GetStackHistory_def)
  have result: "runRollback E F w =
           (None, Fprintf os_Stdout
                    (''Version '' @ fmt_d (rollbackVersion F)
                       @ '' is the current version. No rollback needed.'' @ nl) w2)"
    using name lookup resolve
    by (simp add: runRollback_def getProjectPath_def)
  from fetch1 obtain history1 where
    c1: "calls w1 = calls w @ [Call_SelectStack stack (projectPath F) None,
                               Call_History 0 0 (Inr history1)]"
    unfolding GetStackHistory_def
    by (cases rule: GetStackHistoryWithSelector_cases) simp_all
  from fetch2 obtain history2 where
    c2: "calls w2 = calls w1 @ [Call_SelectStack stack (projectPath F) None,
                                Call_History 0 0 (Inr history2)]"
    unfolding GetStackHistory_def
    by (cases rule: GetStackHistoryWithSelector_cases) simp_all
  have "new_calls w (snd (runRollback E F w)) =
          [Call_SelectStack stack (projectPath F) None, Call_History 0 0 (Inr history1),
           Call_SelectStack stack (projectPath F) None, Call_History 0 0 (Inr history2)]"
    using c1 c2 by (simp add: result new_calls_def)
  with result show ?thesis by simp
qed

theorem runRollback_latest_is_noop_witness:
  "fst (runRollback mock_cmd_externals (mock_flags 5)
          (mock_world (mock_backend0\<lparr>mock_recorded :=
             [(summary 5, checkpoint 5), (summary 2, checkpoint 2), (summary 1, checkpoint 1)]\<rparr>)))
     = None
   \<and> written (snd (runRollback mock_cmd_externals (mock_flags 5)
          (mock_world (mock_backend0\<lparr>mock_recorded :=
             [(summary 5, checkpoint 5), (summary 2, checkpoint 2), (summary 1, checkpoint 1)]\<rparr>))))
        os_Stdout
       = ''Version 5 is the current version. No rollback needed.'' @ nl
   \<and> filter mutating
        (new_calls (mock_world (mock_backend0\<lparr>mock_recorded :=
             [(summary 5, checkpoint 5), (summary 2, checkpoint 2), (summary 1, checkpoint 1)]\<rparr>))
           (snd (runRollback mock_cmd_externals (mock_flags 5)
          (mock_world (mock_backend0\<lparr>mock_recorded :=
             [(summary 5, checkpoint 5), (summary 2, checkpoint 2), (summary 1, checkpoint 1)]\<rparr>)))))
       = []"
proof -
  let ?E = mock_cmd_externals
  let ?F = "mock_flags 5"
  let ?w = "mock_world (mock_backend0\<lparr>mock_recorded :=
             [(summary 5, checkpoint 5), (summary 2, checkpoint 2), (summary 1, checkpoint 1)]\<rparr>)"
  let ?fetch = "\<lambda>w. GetStackHistory (sdk ?E) (time_lib ?E) (projectPath ?F) ''test-stack'' w"
  let ?H = "[info 5, info 2, info 1]"
  have name: "getStackName ?E ?F = Inr ''test-stack''"
    by (simp add: getStackName_def mock_flags_def)
  have fetch1: "?fetch ?w = (Inr ?H, snd (?fetch ?w))"
    by (simp add: history_defs)
  have fetch2: "?fetch (snd (?fetch ?w)) = (Inr ?H, snd (?fetch (snd (?fetch ?w))))"
    by (simp add: history_defs)
  have present: "\<exists>u\<in>set ?H. Info_Version u = rollbackVersion ?F"
    by (simp add: mock_flags_def)
  have latest: "?H \<noteq> [] \<and> Info_Version (?H ! 0) = rollbackVersion ?F"
    by (simp add: mock_flags_def)
  have out: "written (snd (?fetch (snd (?fetch ?w)))) os_Stdout = []"
    by (simp add: history_defs)
  have v: "rollbackVersion ?F = 5"
    by (simp add: mock_flags_def)
  from runRollback_latest_is_noop [OF name fetch1 fetch2 present latest] out v
  show ?thesis by (simp add: filter_empty_conv)
qed

end
